theory Spec2Isabelle
  imports Main "HOL-Library.Word" "HOL-Library.List_Lexorder"
begin

section \<open>Threshold multi-signature aggregator (package keys)\<close>

text \<open>
  Go byte slices are lists of 8-bit words. A slice whose nil-ness the code inspects is an
  \<open>option\<close> (\<open>None\<close> is nil): the \<open>signers\<close> argument of \<open>NewBTCMultiSig\<close> and
  the \<open>Sign\<close> field of a signature. Everywhere else the code only takes lengths, indexes
  or compares with \<open>bytes.Equal\<close> (which identifies nil and empty), so a plain list is used.
\<close>

type_synonym bytes = "8 word list"
type_synonym Address = bytes

record BTCSignature =
  Index :: int
  Address :: Address
  Sign :: "bytes option"

record BTCMultiSig =
  Msg :: bytes
  M :: int
  Signers :: "Address list"
  Signatures :: "BTCSignature list"

datatype keys_error = ErrMissSigners | ErrInvalidThreshold | ErrNotExpectedSigner

text \<open>
  A method with a pointer receiver returns its error and leaves the receiver mutated; an
  index out of range makes the Go runtime panic, and nothing is returned.
\<close>

datatype ('e, 'a) outcome = Panic | Return "'e option" 'a

text \<open>The zero value of \<open>BTCSignature\<close>, as \<open>make([]BTCSignature, n)\<close> fills a slice.\<close>

definition zero_BTCSignature :: BTCSignature where
  "zero_BTCSignature = \<lparr>Index = 0, Address = [], Sign = None\<rparr>"

definition NewBTCMultiSig :: "bytes \<Rightarrow> int \<Rightarrow> Address list option \<Rightarrow> keys_error + BTCMultiSig" where
  "NewBTCMultiSig msg m signers =
     (case signers of
        None \<Rightarrow> Inl ErrMissSigners
      | Some ss \<Rightarrow>
          if m < 0 \<or> m > int (length ss) then Inl ErrInvalidThreshold
          else Inr \<lparr>Msg = msg, M = m, Signers = ss,
                    Signatures = replicate (length ss) zero_BTCSignature\<rparr>)"

definition AddSignature :: "BTCMultiSig \<Rightarrow> BTCSignature \<Rightarrow> (keys_error, BTCMultiSig) outcome" where
  "AddSignature m s =
     (if Index s < 0 \<or> int (length (Signers m)) \<le> Index s then Panic
      else if Address s \<noteq> Signers m ! nat (Index s) then Return (Some ErrNotExpectedSigner) m
      else if int (length (Signatures m)) \<le> Index s then Panic
      else Return None (m\<lparr>Signatures := (Signatures m)[nat (Index s) := s]\<rparr>))"

text \<open>\<open>IsValid\<close>: the loop counts the slots whose \<open>Sign\<close> is not nil.\<close>

fun count_signed :: "BTCSignature list \<Rightarrow> int \<Rightarrow> int" where
  "count_signed [] cnt = cnt"
| "count_signed (item # items) cnt =
     count_signed items (if Sign item \<noteq> None then cnt + 1 else cnt)"

definition IsValid :: "BTCMultiSig \<Rightarrow> bool" where
  "IsValid m = (if count_signed (Signatures m) 0 < M m then False else True)"

text \<open>
  \<open>Bytes\<close> works on a copy of the receiver: it keeps the slots whose \<open>Sign\<close> is not nil,
  in order, and marshals the copy. \<open>json.Marshal\<close> is a library function; it is the
  parameter \<open>marshal\<close>.
\<close>

fun append_signed :: "BTCSignature list \<Rightarrow> BTCSignature list \<Rightarrow> BTCSignature list" where
  "append_signed [] acc = acc"
| "append_signed (item # items) acc =
     append_signed items (if Sign item \<noteq> None then acc @ [item] else acc)"

definition Bytes :: "(BTCMultiSig \<Rightarrow> 'b) \<Rightarrow> BTCMultiSig \<Rightarrow> 'b" where
  "Bytes marshal m = marshal (m\<lparr>Signatures := append_signed (Signatures m) []\<rparr>)"

text \<open>
  \<open>Address\<close> of a multi-signature (the method; the field of a signature has the same
  name in the source): the hash of \<open>Bytes\<close> of a copy whose signatures are nil.
  \<open>utils.Hash\<close> is the parameter \<open>hash\<close>.
\<close>

definition MultiSig_Address :: "('b \<Rightarrow> Address) \<Rightarrow> (BTCMultiSig \<Rightarrow> 'b) \<Rightarrow> BTCMultiSig \<Rightarrow> Address" where
  "MultiSig_Address hash marshal m =
     hash (Bytes marshal \<lparr>Msg = Msg m, M = M m, Signers = Signers m, Signatures = []\<rparr>)"

text \<open>
  \<open>FromBytes\<close>: \<open>json.Unmarshal\<close> (the parameter \<open>unmarshal\<close>) decodes into the
  receiver and returns its error; then every decoded signature is put at the slot its
  \<open>Index\<close> names, in a fresh slice with one slot per signer. The store panics when the
  index is out of range.
\<close>

fun place_signatures :: "BTCSignature list \<Rightarrow> BTCSignature list \<Rightarrow> BTCSignature list option" where
  "place_signatures [] slots = Some slots"
| "place_signatures (item # items) slots =
     (if 0 \<le> Index item \<and> Index item < int (length slots)
      then place_signatures items (slots[nat (Index item) := item])
      else None)"

definition FromBytes ::
  "('b \<Rightarrow> BTCMultiSig \<Rightarrow> 'e option \<times> BTCMultiSig) \<Rightarrow> BTCMultiSig \<Rightarrow> 'b \<Rightarrow> ('e, BTCMultiSig) outcome" where
  "FromBytes unmarshal m b =
     (case unmarshal b m of
        (Some err, m1) \<Rightarrow> Return (Some err) m1
      | (None, m1) \<Rightarrow>
          (case place_signatures (Signatures m1) (replicate (length (Signers m1)) zero_BTCSignature) of
             None \<Rightarrow> Panic
           | Some slots \<Rightarrow> Return None (m1\<lparr>Signatures := slots\<rparr>)))"

text \<open>
  A caller that attaches several signatures one after the other, going on after a
  rejected one (the receiver is then as before); a panic ends the run.
\<close>

fun AddSignatures :: "BTCMultiSig \<Rightarrow> BTCSignature list \<Rightarrow> BTCMultiSig option" where
  "AddSignatures m [] = Some m"
| "AddSignatures m (s # ss) =
     (case AddSignature m s of
        Panic \<Rightarrow> None
      | Return err m1 \<Rightarrow> AddSignatures m1 ss)"

section \<open>Gas-metered chain state (package storage)\<close>

text \<open>\<open>Gas\<close> is \<open>uint64\<close>: sums and products wrap around.\<close>

type_synonym Gas = "64 word"

definition STOREBYTES :: Gas where "STOREBYTES = 20"
definition READFLAT :: Gas where "READFLAT = 20"
definition READBYTES :: Gas where "READBYTES = 2"
definition WRITEFLAT :: Gas where "WRITEFLAT = 200"
definition WRITEBYTES :: Gas where "WRITEBYTES = 20"
definition VERIFYSIG :: Gas where "VERIFYSIG = 50"
definition HASHBYTES :: Gas where "HASHBYTES = 5"
definition CHECKEXIST :: Gas where "CHECKEXIST = 20"
definition DELETE :: Gas where "DELETE = 50"

record gasCalculator =
  limit :: Gas
  consumed :: Gas

definition IsEnough :: "gasCalculator \<Rightarrow> bool" where
  "IsEnough g = (if consumed g \<ge> limit g then True else False)"

text \<open>
  The body of \<open>Consume\<close>, run on its receiver \<open>g\<close>: the returned flag, and \<open>g\<close> as the
  body leaves it.
\<close>

definition Consume_body :: "gasCalculator \<Rightarrow> Gas \<Rightarrow> Gas \<Rightarrow> bool \<Rightarrow> bool \<times> gasCalculator" where
  "Consume_body g amount category allowOverflow =
     (let currentGasCost = amount * category in
      if allowOverflow then (True, g\<lparr>consumed := consumed g + currentGasCost\<rparr>)
      else if consumed g \<ge> limit g then (False, g)
      else (True, g\<lparr>consumed := consumed g + currentGasCost\<rparr>))"

text \<open>
  A call of \<open>Consume\<close>, as the caller sees it: the flag, and the caller's calculator after
  the call. The method is declared with a value receiver, \<open>func (g gasCalculator) Consume\<close>,
  so the body works on a copy of the caller's calculator (also when it is called through
  the pointer that \<open>NewGasCalculator\<close> puts in the interface), and the copy is dropped
  when the call returns.
\<close>

definition Consume :: "gasCalculator \<Rightarrow> Gas \<Rightarrow> Gas \<Rightarrow> bool \<Rightarrow> bool \<times> gasCalculator" where
  "Consume g amount category allowOverflow =
     (fst (Consume_body g amount category allowOverflow), g)"

definition GetLimit :: "gasCalculator \<Rightarrow> Gas" where
  "GetLimit g = limit g"

definition GetConsumed :: "gasCalculator \<Rightarrow> Gas" where
  "GetConsumed g = consumed g"

definition NewGasCalculator :: "Gas \<Rightarrow> gasCalculator" where
  "NewGasCalculator lim = \<lparr>limit = lim, consumed = 0\<rparr>"

datatype storage_error = ErrExceedGasLimit | ErrChainState string

text \<open>
  The embedded \<open>*ChainState\<close> is not part of the sources at hand. Its four operations are
  parameters: each takes the store and gives its results and, where it writes, the store
  after. A byte slice that may be nil is an \<open>option\<close>; its \<open>len\<close> is 0 when nil.
\<close>

record 'cs ChainState_ops =
  cs_Set :: "'cs \<Rightarrow> bytes \<Rightarrow> bytes \<Rightarrow> storage_error option \<times> 'cs"
  cs_Get :: "'cs \<Rightarrow> bytes \<Rightarrow> bool \<Rightarrow> bytes option"
  cs_Exists :: "'cs \<Rightarrow> bytes \<Rightarrow> bool"
  cs_Remove :: "'cs \<Rightarrow> bytes \<Rightarrow> (bytes option \<times> bool) \<times> 'cs"

definition len_bytes :: "bytes option \<Rightarrow> nat" where
  "len_bytes v = (case v of None \<Rightarrow> 0 | Some bs \<Rightarrow> length bs)"

record 'cs GasChainState =
  ChainState :: 'cs
  GasCalculator :: gasCalculator

definition GasChainState_Set ::
  "'cs ChainState_ops \<Rightarrow> 'cs GasChainState \<Rightarrow> bytes \<Rightarrow> bytes \<Rightarrow> storage_error option \<times> 'cs GasChainState" where
  "GasChainState_Set ops g key val =
     (case Consume (GasCalculator g) 1 WRITEFLAT False of (ok, c1) \<Rightarrow>
        if \<not> ok then (Some ErrExceedGasLimit, g\<lparr>GasCalculator := c1\<rparr>)
        else (case cs_Set ops (ChainState g) key val of
                (Some err, cs1) \<Rightarrow> (Some err, \<lparr>ChainState = cs1, GasCalculator = c1\<rparr>)
              | (None, cs1) \<Rightarrow>
                  (case Consume c1 (of_nat (length val)) WRITEBYTES True of (ok2, c2) \<Rightarrow>
                     (None, \<lparr>ChainState = cs1, GasCalculator = c2\<rparr>))))"

text \<open>
  \<open>Get\<close>, \<open>Exists\<close> and \<open>Remove\<close> return no error: past the limit they log the gas-limit
  error and return nil, false, and (nil, false). The model returns whether that happened
  next to the result.
\<close>

definition GasChainState_Get ::
  "'cs ChainState_ops \<Rightarrow> 'cs GasChainState \<Rightarrow> bytes \<Rightarrow> bool \<Rightarrow> (storage_error option \<times> bytes option) \<times> 'cs GasChainState" where
  "GasChainState_Get ops g key lastCommit =
     (case Consume (GasCalculator g) 1 READFLAT False of (ok, c1) \<Rightarrow>
        if \<not> ok then ((Some ErrExceedGasLimit, None), g\<lparr>GasCalculator := c1\<rparr>)
        else (let val = cs_Get ops (ChainState g) key lastCommit in
              case Consume c1 (of_nat (len_bytes val)) READBYTES True of (ok2, c2) \<Rightarrow>
                ((None, val), g\<lparr>GasCalculator := c2\<rparr>)))"

definition GasChainState_Exists ::
  "'cs ChainState_ops \<Rightarrow> 'cs GasChainState \<Rightarrow> bytes \<Rightarrow> (storage_error option \<times> bool) \<times> 'cs GasChainState" where
  "GasChainState_Exists ops g key =
     (case Consume (GasCalculator g) 1 CHECKEXIST False of (ok, c1) \<Rightarrow>
        if \<not> ok then ((Some ErrExceedGasLimit, False), g\<lparr>GasCalculator := c1\<rparr>)
        else ((None, cs_Exists ops (ChainState g) key), g\<lparr>GasCalculator := c1\<rparr>))"

definition GasChainState_Remove ::
  "'cs ChainState_ops \<Rightarrow> 'cs GasChainState \<Rightarrow> bytes \<Rightarrow> (storage_error option \<times> bytes option \<times> bool) \<times> 'cs GasChainState" where
  "GasChainState_Remove ops g key =
     (case Consume (GasCalculator g) 1 DELETE False of (ok, c1) \<Rightarrow>
        if \<not> ok then ((Some ErrExceedGasLimit, None, False), g\<lparr>GasCalculator := c1\<rparr>)
        else (case cs_Remove ops (ChainState g) key of
                ((val, ok2), cs1) \<Rightarrow> ((None, val, ok2), \<lparr>ChainState = cs1, GasCalculator = c1\<rparr>)))"

text \<open>
  Modelled from the spec: the chain state store \<open>ChainState\<close>, which is not part of the
  sources at hand, as the capability \<open>Get(key) \<rightarrow> bytes\<close>, \<open>Set(key, bytes) \<rightarrow> error\<close>,
  \<open>Exists(key) \<rightarrow> bool\<close>, \<open>Remove(key) \<rightarrow> (bytes, bool)\<close> over a map from keys to values.
\<close>

definition map_ChainState :: "(bytes \<rightharpoonup> bytes) ChainState_ops" where
  "map_ChainState =
     \<lparr>cs_Set = (\<lambda>cs key val. (None, cs(key \<mapsto> val))),
      cs_Get = (\<lambda>cs key lastCommit. cs key),
      cs_Exists = (\<lambda>cs key. cs key \<noteq> None),
      cs_Remove = (\<lambda>cs key. ((cs key, cs key \<noteq> None), cs(key := None)))\<rparr>"

text \<open>A run of store operations, each on the state the one before left.\<close>

datatype store_op = OpSet bytes bytes | OpGet bytes bool | OpExists bytes | OpRemove bytes

fun store_step ::
  "'cs ChainState_ops \<Rightarrow> 'cs GasChainState \<Rightarrow> store_op \<Rightarrow> storage_error option \<times> 'cs GasChainState" where
  "store_step ops g (OpSet key val) = GasChainState_Set ops g key val"
| "store_step ops g (OpGet key lastCommit) =
     (case GasChainState_Get ops g key lastCommit of ((err, val), g1) \<Rightarrow> (err, g1))"
| "store_step ops g (OpExists key) =
     (case GasChainState_Exists ops g key of ((err, ex), g1) \<Rightarrow> (err, g1))"
| "store_step ops g (OpRemove key) =
     (case GasChainState_Remove ops g key of ((err, val, ok), g1) \<Rightarrow> (err, g1))"

fun store_run ::
  "'cs ChainState_ops \<Rightarrow> 'cs GasChainState \<Rightarrow> store_op list \<Rightarrow> storage_error option list \<times> 'cs GasChainState" where
  "store_run ops g [] = ([], g)"
| "store_run ops g (opn # opns) =
     (case store_step ops g opn of (err, g1) \<Rightarrow>
        (case store_run ops g1 opns of (errs, g2) \<Rightarrow> (err # errs, g2)))"

section \<open>Tracker store (package bitcoin)\<close>

text \<open>\<open>[]byte(s)\<close> for a string literal \<open>s\<close>.\<close>

definition bytes_of :: "string \<Rightarrow> bytes" where
  "bytes_of s = map (\<lambda>c. of_nat (of_char c)) s"

text \<open>
  The tracker of package \<open>bitcoin\<close> is not part of the sources at hand. \<open>GetTrackerForLock\<close>
  reads its field \<open>CurrentBalance\<close> (an \<open>int64\<close>; it is only compared and copied, so an
  \<open>int\<close> here) and calls \<open>GetBalance\<close> and \<open>IsAvailable\<close>; everything else is \<open>Other\<close>.
  \<open>IsAvailable\<close> and the serializer's \<open>Deserialize\<close> are parameters; \<open>None\<close> is a value
  that does not decode.
\<close>

record 'y bitcoin_Tracker =
  CurrentBalance :: int
  Other :: 'y

text \<open>
  Modelled from the spec: \<open>GetBalance\<close> of a tracker, which is not part of the sources at
  hand, gives the tracker's \<open>CurrentBalance\<close>.
\<close>

definition GetBalance :: "'y bitcoin_Tracker \<Rightarrow> int" where
  "GetBalance t = CurrentBalance t"

datatype bitcoin_error = ErrTrackerNotFound | NoTrackerFound

text \<open>
  Modelled from the spec: the chain state \<open>storage.State\<close>, which is not part of the
  sources at hand, as the entries it holds. \<open>IterateRange(start, end, ascending, visit)\<close>
  visits the entries whose key lies in the range from \<open>start\<close> (included) to \<open>end\<close>
  (excluded), in ascending order of the keys (byte strings in lexicographic order), or
  descending; it stops when the visitor returns true, and returns whether it was stopped.
  The visitor is a closure: the variables it writes are threaded through as \<open>acc\<close>.
\<close>

type_synonym entries = "(bytes \<times> bytes) list"

fun iterate :: "entries \<Rightarrow> (bytes \<Rightarrow> bytes \<Rightarrow> 'a \<Rightarrow> bool \<times> 'a) \<Rightarrow> 'a \<Rightarrow> bool \<times> 'a" where
  "iterate [] visit acc = (False, acc)"
| "iterate ((k, v) # kvs) visit acc =
     (case visit k v acc of
        (stop, acc1) \<Rightarrow> if stop then (True, acc1) else iterate kvs visit acc1)"

definition in_range :: "bytes \<Rightarrow> bytes \<Rightarrow> bytes \<Rightarrow> bool" where
  "in_range start end k = (start \<le> k \<and> k < end)"

definition range_entries :: "entries \<Rightarrow> bytes \<Rightarrow> bytes \<Rightarrow> entries" where
  "range_entries st start end = sort_key fst (filter (\<lambda>(k, v). in_range start end k) st)"

definition IterateRange ::
  "entries \<Rightarrow> bytes \<Rightarrow> bytes \<Rightarrow> bool \<Rightarrow> (bytes \<Rightarrow> bytes \<Rightarrow> 'a \<Rightarrow> bool \<times> 'a) \<Rightarrow> 'a \<Rightarrow> bool \<times> 'a" where
  "IterateRange st start end ascending visit acc =
     iterate (if ascending then range_entries st start end else rev (range_entries st start end))
       visit acc"

text \<open>
  The store. Its \<open>prefix\<close> is a byte slice: \<open>prefix\<close> is what it holds and \<open>prefix_cap\<close>
  is its capacity, which \<open>append\<close> looks at.
\<close>

record bitcoin_TrackerStore =
  State :: entries
  prefix :: bytes
  prefix_cap :: nat

text \<open>
  \<open>a := append(p, xs...); b := append(p, ys...)\<close> for a slice \<open>p\<close> of capacity \<open>c\<close>, as
  the two slices read after both statements. \<open>append\<close> writes into the array of \<open>p\<close>
  when the result fits its capacity, and into a fresh array otherwise. When both results
  fit, they share the array of \<open>p\<close>, and the second statement overwrites what the first
  wrote after the bytes of \<open>p\<close>.
\<close>

definition append_twice :: "bytes \<Rightarrow> nat \<Rightarrow> bytes \<Rightarrow> bytes \<Rightarrow> bytes \<times> bytes" where
  "append_twice p c xs ys =
     (if length p + length xs \<le> c \<and> length p + length ys \<le> c
      then (p @ take (length xs) (ys @ drop (length ys) xs), p @ ys)
      else (p @ xs, p @ ys))"

text \<open>
  The visitor of \<open>GetTrackerForLock\<close>. It writes the captured variables \<open>lowestAmount\<close>
  and \<open>tempTracker\<close> (\<open>None\<close> is nil), and returns false on every path.
\<close>

definition visit_tracker ::
  "(bytes \<Rightarrow> 'y bitcoin_Tracker option) \<Rightarrow> ('y bitcoin_Tracker \<Rightarrow> bool) \<Rightarrow>
     bytes \<Rightarrow> bytes \<Rightarrow> int \<times> 'y bitcoin_Tracker option \<Rightarrow> bool \<times> (int \<times> 'y bitcoin_Tracker option)" where
  "visit_tracker Deserialize IsAvailable k v acc =
     (case acc of (lowestAmount, tempTracker) \<Rightarrow>
        (case Deserialize v of
           None \<Rightarrow> (False, (lowestAmount, tempTracker))
         | Some d \<Rightarrow>
             if IsAvailable d \<and> GetBalance d < lowestAmount
             then (False, (CurrentBalance d, Some d))
             else (False, (lowestAmount, tempTracker))))"

definition GetTrackerForLock ::
  "(bytes \<Rightarrow> 'y bitcoin_Tracker option) \<Rightarrow> ('y bitcoin_Tracker \<Rightarrow> bool) \<Rightarrow>
     bitcoin_TrackerStore \<Rightarrow> bitcoin_error + 'y bitcoin_Tracker" where
  "GetTrackerForLock Deserialize IsAvailable ts =
     (case append_twice (prefix ts) (prefix_cap ts)
             (bytes_of ''tracker_  '') (bytes_of ''tracker_~~'') of
        (start, end) \<Rightarrow>
          (let lowestAmount = 999999999999999;
               tempTracker = None;
               doAscending = True
           in case IterateRange (bitcoin_TrackerStore.State ts) start end doAscending
                     (visit_tracker Deserialize IsAvailable) (lowestAmount, tempTracker) of
                (stopped, (lowestAmount1, tempTracker1)) \<Rightarrow>
                  (case tempTracker1 of
                     None \<Rightarrow> Inl NoTrackerFound
                   | Some d \<Rightarrow> Inr d)))"

text \<open>
  The entries \<open>GetTrackerForLock\<close> scans, in the order of the scan (between the \<open>start\<close>
  and the \<open>end\<close> it computes), and the trackers among them that it can pick: the
  \<open>i\<close>-th scanned entry decodes to \<open>d\<close>, \<open>d\<close> is available and its balance is below
  \<open>999999999999999\<close>.
\<close>

definition scanned :: "bitcoin_TrackerStore \<Rightarrow> entries" where
  "scanned ts =
     (case append_twice (prefix ts) (prefix_cap ts)
             (bytes_of ''tracker_  '') (bytes_of ''tracker_~~'') of
        (start, end) \<Rightarrow> range_entries (bitcoin_TrackerStore.State ts) start end)"

definition eligible ::
  "(bytes \<Rightarrow> 'y bitcoin_Tracker option) \<Rightarrow> ('y bitcoin_Tracker \<Rightarrow> bool) \<Rightarrow>
     bitcoin_TrackerStore \<Rightarrow> nat \<Rightarrow> 'y bitcoin_Tracker \<Rightarrow> bool" where
  "eligible Deserialize IsAvailable ts i d =
     (i < length (scanned ts) \<and> Deserialize (snd (scanned ts ! i)) = Some d
      \<and> IsAvailable d \<and> CurrentBalance d < 999999999999999)"

text \<open>
  The invariant of the scan, after the entries \<open>es\<close> have been visited from the start
  \<open>(low, None)\<close>: the lowest amount is at most the balance of every available tracker
  seen, and either nothing was picked, or the tracker picked is the first available one
  seen whose balance is the lowest amount, and that is below \<open>low\<close>.
\<close>

definition scan_inv ::
  "(bytes \<Rightarrow> 'y bitcoin_Tracker option) \<Rightarrow> ('y bitcoin_Tracker \<Rightarrow> bool) \<Rightarrow> entries \<Rightarrow>
     int \<Rightarrow> int \<times> 'y bitcoin_Tracker option \<Rightarrow> bool" where
  "scan_inv D A es low acc =
     (case acc of (low1, tmp1) \<Rightarrow>
        (\<forall>j<length es. \<forall>d. D (snd (es ! j)) = Some d \<and> A d \<longrightarrow> low1 \<le> CurrentBalance d)
      \<and> ((tmp1 = None \<and> low1 = low)
          \<or> (\<exists>i<length es. \<exists>d. D (snd (es ! i)) = Some d \<and> A d \<and> tmp1 = Some d
                \<and> low1 = CurrentBalance d \<and> CurrentBalance d < low
                \<and> (\<forall>j<i. \<forall>d1. D (snd (es ! j)) = Some d1 \<and> A d1 \<longrightarrow>
                      CurrentBalance d < CurrentBalance d1))))"

text \<open>
  A store for running \<open>GetTrackerForLock\<close> on, under the prefix \<open>btct_\<close>, a slice of
  five bytes and capacity eight: tracker \<open>a\<close> with balance 50, tracker \<open>b\<close> with
  balance 10, both available, and tracker \<open>c\<close> with balance 5, not available. The
  serialized form of a tracker is one byte here, and the rest of a tracker is its name
  and whether it is available. Then three more stores: one whose only tracker has the
  balance \<open>999999999999999\<close>, one whose only tracker is stored under \<open>btct_a\<close>, and the
  first store again with a prefix slice of capacity 16.
\<close>

definition example_Deserialize :: "bytes \<Rightarrow> (string \<times> bool) bitcoin_Tracker option" where
  "example_Deserialize v =
     map_of [([1], \<lparr>CurrentBalance = 50, Other = (''A'', True)\<rparr>),
             ([2], \<lparr>CurrentBalance = 10, Other = (''B'', True)\<rparr>),
             ([3], \<lparr>CurrentBalance = 5, Other = (''C'', False)\<rparr>),
             ([4], \<lparr>CurrentBalance = 999999999999999, Other = (''D'', True)\<rparr>)] v"

definition example_IsAvailable :: "(string \<times> bool) bitcoin_Tracker \<Rightarrow> bool" where
  "example_IsAvailable t = snd (Other t)"

definition example_TrackerStore :: bitcoin_TrackerStore where
  "example_TrackerStore =
     \<lparr>State = [(bytes_of ''btct_tracker_c'', [3]), (bytes_of ''btct_tracker_a'', [1]),
               (bytes_of ''btct_tracker_b'', [2])],
      prefix = bytes_of ''btct_'', prefix_cap = 8\<rparr>"

definition example_TrackerStore_D :: bitcoin_TrackerStore where
  "example_TrackerStore_D =
     \<lparr>State = [(bytes_of ''btct_tracker_d'', [4])], prefix = bytes_of ''btct_'', prefix_cap = 8\<rparr>"

definition example_TrackerStore_A :: bitcoin_TrackerStore where
  "example_TrackerStore_A =
     \<lparr>State = [(bytes_of ''btct_a'', [1])], prefix = bytes_of ''btct_'', prefix_cap = 8\<rparr>"

definition example_TrackerStore_cap16 :: bitcoin_TrackerStore where
  "example_TrackerStore_cap16 = example_TrackerStore\<lparr>prefix_cap := 16\<rparr>"

section \<open>Transition engine and tracker handlers (package event)\<close>

text \<open>
  Modelled from the spec: the tracker states of package \<open>ethereum\<close>, whose constants are
  not part of the sources at hand. A status is an opaque ordinal naming a phase of the
  lifecycle \<open>New \<rightarrow> BusyBroadcasting \<rightarrow> BusyFinalizing \<rightarrow> Finalized \<rightarrow> Minted\<close>; zero is
  reserved for "no such state" and is none of the five. \<open>transition.Status(s)\<close> is
  \<open>Status s\<close>, and the literal \<open>0\<close> is \<open>Status_0\<close>.
\<close>

datatype TrackerState = New | BusyBroadcasting | BusyFinalizing | Finalized | Minted

datatype Status = Status_0 | Status TrackerState

text \<open>
  Errors of the handlers: \<open>errors.New(msg)\<close>, \<open>errors.Wrap(err, msg)\<close>,
  \<open>errors.Wrap(err, string(tracker.State))\<close> and \<open>errors.Wrap(err, err2.Error())\<close>.
  An error of a collaborator is an \<open>Error\<close> with its text.
\<close>

datatype error =
    Error string
  | Wrap error string
  | Wrap_State error TrackerState
  | Wrap_Text error error

text \<open>
  Modelled from the spec: a job is the record \<open>{Type, TrackerName, TargetState,
  RetryCount, Done}\<close>; its key is derived from \<open>(TrackerName, TargetState)\<close>; \<open>IsDone\<close>
  tells whether its off-chain action completed. The job types and their constructors
  \<open>NewETHBroadcast\<close> and \<open>NewETHCheckFinality\<close> are not part of the sources at hand
  (the type names are, in the constants of package \<open>event\<close>).
\<close>

definition JobTypeETHCheckfinalty :: string where
  "JobTypeETHCheckfinalty = ''ethCheckFinality''"

definition JobTypeETHBroadcast :: string where
  "JobTypeETHBroadcast = ''ethBroadcast''"

definition MaxJobRetries :: int where
  "MaxJobRetries = 10"

type_synonym JobID = "string \<times> TrackerState"

record Job =
  Type :: string
  TrackerName :: string
  TargetState :: TrackerState
  RetryCount :: int
  Done :: bool

definition Job_GetJobID :: "Job \<Rightarrow> JobID" where
  "Job_GetJobID j = (Job.TrackerName j, TargetState j)"

definition IsDone :: "Job \<Rightarrow> bool" where
  "IsDone j = Done j"

definition NewETHBroadcast :: "string \<Rightarrow> TrackerState \<Rightarrow> Job" where
  "NewETHBroadcast name state =
     \<lparr>Type = JobTypeETHBroadcast, TrackerName = name, TargetState = state,
      RetryCount = 0, Done = False\<rparr>"

definition NewETHCheckFinality :: "string \<Rightarrow> TrackerState \<Rightarrow> Job" where
  "NewETHCheckFinality name state =
     \<lparr>Type = JobTypeETHCheckfinalty, TrackerName = name, TargetState = state,
      RetryCount = 0, Done = False\<rparr>"

text \<open>
  The tracker of package \<open>ethereum\<close> is not part of the sources at hand. The handlers read
  and write its fields \<open>State\<close>, \<open>TrackerName\<close> and \<open>TaskCompleted\<close>; everything else
  (the recorded votes, the chain-specific fields) is \<open>Rest\<close>, of any type.
\<close>

record 'x Tracker =
  TrackerName :: string
  State :: TrackerState
  TaskCompleted :: bool
  Rest :: 'x

text \<open>
  Modelled from the spec: \<open>GetJobID\<close> of a tracker, which is not part of the sources at
  hand. The key of the tracker's job for a state is derived from
  \<open>(TrackerName, TargetState)\<close>.
\<close>

definition GetJobID :: "'x Tracker \<Rightarrow> TrackerState \<Rightarrow> JobID" where
  "GetJobID tracker state = (Tracker.TrackerName tracker, state)"

text \<open>
  The context a handler is given, \<open>ethereum.TrackerCtx\<close>: the tracker (a pointer, so the
  handler's writes stay), the job store, the tracker store and the address of the
  current node. A handler takes an \<open>interface{}\<close> and casts it; \<open>OtherValue\<close> is any
  value that is not a \<open>TrackerCtx\<close>. A handler returns its error, and the model returns
  next to it the context as the handler leaves it.
\<close>

record ('x, 'js, 'ts) TrackerCtx =
  Tracker :: "'x Tracker"
  JobStore :: 'js
  TrackerStore :: 'ts
  CurrNodeAddr :: Address

datatype ('x, 'js, 'ts) ctx_value = IsTrackerCtx "('x, 'js, 'ts) TrackerCtx" | OtherValue

text \<open>
  The collaborators of the handlers, none of them part of the sources at hand, are
  parameters: the job store (\<open>SaveJob\<close>, \<open>GetJob\<close>, \<open>DeleteJob\<close>), the tracker store
  (\<open>Delete\<close>, which returns a flag and an error) and the tracker's own methods
  \<open>CheckIfVoted\<close>, \<open>GetVotes\<close> and \<open>Finalized\<close>. An operation that writes gives the
  store after it.
\<close>

record ('x, 'js, 'ts) collaborators =
  SaveJob :: "'js \<Rightarrow> Job \<Rightarrow> error option \<times> 'js"
  GetJob :: "'js \<Rightarrow> JobID \<Rightarrow> error + Job"
  DeleteJob :: "'js \<Rightarrow> Job \<Rightarrow> error option \<times> 'js"
  Delete :: "'ts \<Rightarrow> string \<Rightarrow> (bool \<times> error option) \<times> 'ts"
  CheckIfVoted :: "'x Tracker \<Rightarrow> Address \<Rightarrow> bool"
  GetVotes :: "'x Tracker \<Rightarrow> int"
  Tracker_Finalized :: "'x Tracker \<Rightarrow> bool"

type_synonym ('x, 'js, 'ts) handler =
  "('x, 'js, 'ts) ctx_value \<Rightarrow> error option \<times> ('x, 'js, 'ts) ctx_value"

definition Broadcasting :: "('x, 'js, 'ts) collaborators \<Rightarrow> ('x, 'js, 'ts) handler" where
  "Broadcasting co ctx =
     (case ctx of
        OtherValue \<Rightarrow> (Some (Error ''error casting tracker context''), ctx)
      | IsTrackerCtx context \<Rightarrow>
          (let tracker = Tracker context in
           if State tracker \<noteq> New
           then (Some (Wrap_State (Error ''Cannot Broadcast from the current state'') (State tracker)), ctx)
           else
             (let tracker1 = tracker\<lparr>State := BusyBroadcasting\<rparr>;
                  job = NewETHBroadcast (Tracker.TrackerName tracker1) (State tracker1)
              in case SaveJob co (JobStore context) job of
                   (Some err, js1) \<Rightarrow>
                     (Some (Wrap_Text (Error ''job serialization failed err: '') err),
                      IsTrackerCtx (context\<lparr>Tracker := tracker1, JobStore := js1\<rparr>))
                 | (None, js1) \<Rightarrow>
                     (None, IsTrackerCtx (context\<lparr>Tracker := tracker1, JobStore := js1\<rparr>)))))"

definition Finalizing :: "('x, 'js, 'ts) collaborators \<Rightarrow> ('x, 'js, 'ts) handler" where
  "Finalizing co ctx =
     (case ctx of
        OtherValue \<Rightarrow> (Some (Error ''error casting tracker context''), ctx)
      | IsTrackerCtx context \<Rightarrow>
          (let tracker = Tracker context in
           if State tracker \<noteq> BusyBroadcasting
           then (Some (Wrap_State (Error ''Cannot start Finalizing from the current state'') (State tracker)), ctx)
           else
             (let voted = CheckIfVoted co tracker (CurrNodeAddr context);
                  after_vote =
                    (if \<not> voted
                     then (case GetJob co (JobStore context) (GetJobID tracker BusyBroadcasting) of
                             Inl err \<Rightarrow> (Some (Wrap err ''failed to get job''), JobStore context)
                           | Inr bjob \<Rightarrow>
                               if IsDone bjob
                               then (let job = NewETHCheckFinality (Tracker.TrackerName tracker) BusyFinalizing
                                     in case SaveJob co (JobStore context) job of
                                          (Some err, js1) \<Rightarrow>
                                            (Some (Wrap_Text (Error ''job serialization failed err: '') err), js1)
                                        | (None, js1) \<Rightarrow> (None, js1))
                               else (None, JobStore context))
                     else (None, JobStore context))
              in case after_vote of
                   (Some err, js1) \<Rightarrow> (Some err, IsTrackerCtx (context\<lparr>JobStore := js1\<rparr>))
                 | (None, js1) \<Rightarrow>
                     (let numVotes = GetVotes co tracker;
                          tracker1 = (if numVotes > 0 then tracker\<lparr>State := BusyFinalizing\<rparr> else tracker)
                      in (None, IsTrackerCtx (context\<lparr>Tracker := tracker1, JobStore := js1\<rparr>))))))"

definition Finalization :: "('x, 'js, 'ts) collaborators \<Rightarrow> ('x, 'js, 'ts) handler" where
  "Finalization co ctx =
     (case ctx of
        OtherValue \<Rightarrow> (Some (Error ''error casting tracker context''), ctx)
      | IsTrackerCtx context \<Rightarrow>
          (let tracker = Tracker context in
           if State tracker \<noteq> BusyFinalizing
           then (Some (Wrap_State (Error ''cannot finalize from the current state'') (State tracker)), ctx)
           else
             (let voted = CheckIfVoted co tracker (CurrNodeAddr context);
                  after_vote =
                    (if \<not> voted
                     then (let job = NewETHCheckFinality (Tracker.TrackerName tracker) (State tracker)
                           in case SaveJob co (JobStore context) job of
                                (Some err, js1) \<Rightarrow>
                                  (Some (Wrap_Text (Error ''job serialization failed err: '') err), js1)
                              | (None, js1) \<Rightarrow> (None, js1))
                     else (None, JobStore context))
              in case after_vote of
                   (Some err, js1) \<Rightarrow> (Some err, IsTrackerCtx (context\<lparr>JobStore := js1\<rparr>))
                 | (None, js1) \<Rightarrow>
                     (let tracker1 = (if Tracker_Finalized co tracker
                                      then tracker\<lparr>State := Finalized\<rparr> else tracker)
                      in (None, IsTrackerCtx (context\<lparr>Tracker := tracker1, JobStore := js1\<rparr>))))))"

definition Minting :: "('x, 'js, 'ts) collaborators \<Rightarrow> ('x, 'js, 'ts) handler" where
  "Minting co ctx =
     (case ctx of
        OtherValue \<Rightarrow> (Some (Error ''error casting tracker context''), ctx)
      | IsTrackerCtx context \<Rightarrow>
          (let tracker = Tracker context in
           if State tracker \<noteq> Finalized
           then (Some (Wrap_State (Error ''Cannot Mint from the current state'') (State tracker)), ctx)
           else
             (let tracker1 = (if TaskCompleted tracker then tracker\<lparr>State := Minted\<rparr> else tracker)
              in (None, IsTrackerCtx (context\<lparr>Tracker := tracker1\<rparr>)))))"

definition Cleanup :: "('x, 'js, 'ts) collaborators \<Rightarrow> ('x, 'js, 'ts) handler" where
  "Cleanup co ctx =
     (case ctx of
        OtherValue \<Rightarrow> (Some (Error ''error casting tracker context''), ctx)
      | IsTrackerCtx context \<Rightarrow>
          (let tracker = Tracker context in
           case GetJob co (JobStore context) (GetJobID tracker BusyBroadcasting) of
             Inl err \<Rightarrow> (Some (Wrap err ''failed to get job''), ctx)
           | Inr bjob \<Rightarrow>
               (case DeleteJob co (JobStore context) bjob of
                  (Some err, js1) \<Rightarrow> (Some err, IsTrackerCtx (context\<lparr>JobStore := js1\<rparr>))
                | (None, js1) \<Rightarrow>
                    (case GetJob co js1 (GetJobID tracker BusyBroadcasting) of
                       Inl err \<Rightarrow>
                         (Some (Wrap err ''failed to get job''), IsTrackerCtx (context\<lparr>JobStore := js1\<rparr>))
                     | Inr fjob \<Rightarrow>
                         (case DeleteJob co js1 fjob of
                            (Some err, js2) \<Rightarrow> (Some err, IsTrackerCtx (context\<lparr>JobStore := js2\<rparr>))
                          | (None, js2) \<Rightarrow>
                              (case Delete co (TrackerStore context) (Tracker.TrackerName tracker) of
                                 ((res, err), ts1) \<Rightarrow>
                                   if err \<noteq> None
                                   then (err, IsTrackerCtx (context\<lparr>JobStore := js2, TrackerStore := ts1\<rparr>))
                                   else if \<not> res
                                   then (err, IsTrackerCtx (context\<lparr>JobStore := js2, TrackerStore := ts1\<rparr>))
                                   else (None, IsTrackerCtx (context\<lparr>JobStore := js2, TrackerStore := ts1\<rparr>))))))))"

text \<open>
  Modelled from the spec: the transition engine of package \<open>transition\<close>, which is not part
  of the sources at hand. An engine owns the declared statuses and a mapping from
  transition name to transition. \<open>NewEngine\<close> fails to build when the statuses contain
  duplicates. \<open>Register\<close> fails with \<open>InvalidStatus\<close> when \<open>From\<close>, or \<open>To\<close> when nonzero,
  is not a declared status, and with \<open>DuplicateName\<close> when the name is registered already.
\<close>

record 'h Transition =
  Name :: string
  Fn :: 'h
  From :: Status
  To :: Status

record 'h Engine =
  statuses :: "Status list"
  transitions :: "string \<rightharpoonup> 'h Transition"

datatype engine_error = InvalidStatus | DuplicateName | UnknownTransition

definition NewEngine :: "Status list \<Rightarrow> 'h Engine option" where
  "NewEngine sts =
     (if distinct sts then Some \<lparr>statuses = sts, transitions = Map.empty\<rparr> else None)"

definition Register :: "'h Engine \<Rightarrow> 'h Transition \<Rightarrow> engine_error + 'h Engine" where
  "Register e t =
     (if From t \<notin> set (statuses e) \<or> (To t \<noteq> Status_0 \<and> To t \<notin> set (statuses e))
      then Inl InvalidStatus
      else if transitions e (Name t) \<noteq> None then Inl DuplicateName
      else Inr (e\<lparr>transitions := (transitions e)(Name t \<mapsto> t)\<rparr>))"

text \<open>
  Modelled from the spec: the names of the five transitions, constants of package
  \<open>ethereum\<close> that are not part of the sources at hand.
\<close>

definition BROADCASTING :: string where "BROADCASTING = ''BROADCASTING''"
definition FINALIZING :: string where "FINALIZING = ''FINALIZING''"
definition FINALIZE :: string where "FINALIZE = ''FINALIZE''"
definition MINTING :: string where "MINTING = ''MINTING''"
definition CLEANUP :: string where "CLEANUP = ''CLEANUP''"

text \<open>
  \<open>init\<close> of package \<open>event\<close> builds \<open>EthEngine\<close> and registers the five transitions,
  panicking at the first registration that fails; \<open>None\<close> is the panic (or an engine that
  failed to build).
\<close>

definition init :: "('x, 'js, 'ts) collaborators \<Rightarrow> ('x, 'js, 'ts) handler Engine option" where
  "init co =
     (case NewEngine [Status New, Status BusyBroadcasting, Status BusyFinalizing,
                      Status Finalized, Status Minted] of
        None \<Rightarrow> None
      | Some e0 \<Rightarrow>
     (case Register e0 \<lparr>Name = BROADCASTING, Fn = Broadcasting co,
                        From = Status New, To = Status BusyBroadcasting\<rparr> of
        Inl err \<Rightarrow> None
      | Inr e1 \<Rightarrow>
     (case Register e1 \<lparr>Name = FINALIZING, Fn = Finalizing co,
                        From = Status BusyBroadcasting, To = Status BusyFinalizing\<rparr> of
        Inl err \<Rightarrow> None
      | Inr e2 \<Rightarrow>
     (case Register e2 \<lparr>Name = FINALIZE, Fn = Finalization co,
                        From = Status BusyFinalizing, To = Status Finalized\<rparr> of
        Inl err \<Rightarrow> None
      | Inr e3 \<Rightarrow>
     (case Register e3 \<lparr>Name = MINTING, Fn = Minting co,
                        From = Status Finalized, To = Status Minted\<rparr> of
        Inl err \<Rightarrow> None
      | Inr e4 \<Rightarrow>
     (case Register e4 \<lparr>Name = CLEANUP, Fn = Cleanup co,
                        From = Status Minted, To = Status_0\<rparr> of
        Inl err \<Rightarrow> None
      | Inr e5 \<Rightarrow> Some e5))))))"

text \<open>
  Modelled from the spec: a job store and a tracker store for running the handlers, as
  maps. \<open>SaveJob\<close> writes under the job's key, overwriting; \<open>GetJob\<close> fails with
  \<open>JobNotFound\<close> when the key is absent; \<open>DeleteJob\<close> removes the record; \<open>Delete\<close> of
  the tracker store removes the tracker record and tells whether there was one. Here the
  rest of a tracker is the list of the addresses that voted, and a tracker counts as
  finalized once one has.
\<close>

definition map_collaborators ::
  "(Address list, JobID \<rightharpoonup> Job, string \<rightharpoonup> Address list Tracker) collaborators" where
  "map_collaborators =
     \<lparr>SaveJob = (\<lambda>js job. (None, js(Job_GetJobID job \<mapsto> job))),
      GetJob = (\<lambda>js jid. case js jid of None \<Rightarrow> Inl (Error ''JobNotFound'') | Some job \<Rightarrow> Inr job),
      DeleteJob = (\<lambda>js job. (None, js(Job_GetJobID job := None))),
      Delete = (\<lambda>ts name. ((ts name \<noteq> None, None), ts(name := None))),
      CheckIfVoted = (\<lambda>tracker addr. addr \<in> set (Rest tracker)),
      GetVotes = (\<lambda>tracker. int (length (Rest tracker))),
      Tracker_Finalized = (\<lambda>tracker. 0 < length (Rest tracker))\<rparr>"

text \<open>
  A context for running the handlers on: the tracker \<open>t1\<close> in a given state, with its
  broadcasting job and its finality-check job stored, both done, and the tracker stored.
\<close>

definition example_Tracker :: "TrackerState \<Rightarrow> Address list Tracker" where
  "example_Tracker s = \<lparr>TrackerName = ''t1'', State = s, TaskCompleted = True, Rest = [[1]]\<rparr>"

definition example_JobStore :: "JobID \<rightharpoonup> Job" where
  "example_JobStore =
     [(''t1'', BusyBroadcasting) \<mapsto> (NewETHBroadcast ''t1'' BusyBroadcasting)\<lparr>Done := True\<rparr>,
      (''t1'', BusyFinalizing) \<mapsto> (NewETHCheckFinality ''t1'' BusyFinalizing)\<lparr>Done := True\<rparr>]"

definition example_TrackerCtx ::
  "TrackerState \<Rightarrow> (Address list, JobID \<rightharpoonup> Job, string \<rightharpoonup> Address list Tracker) TrackerCtx" where
  "example_TrackerCtx s =
     \<lparr>Tracker = example_Tracker s, JobStore = example_JobStore,
      TrackerStore = [''t1'' \<mapsto> example_Tracker s], CurrNodeAddr = [1]\<rparr>"




section \<open>Properties of the multi-signature aggregator\<close>

lemma AddSignature_keeps:
  "AddSignature m s = Return err m1 \<Longrightarrow>
     Msg m1 = Msg m \<and> M m1 = M m \<and> Signers m1 = Signers m \<and>
     length (Signatures m1) = length (Signatures m)"
  by (auto simp: AddSignature_def split: if_splits)

lemma AddSignatures_keeps:
  "AddSignatures m ss = Some m1 \<Longrightarrow>
     Msg m1 = Msg m \<and> M m1 = M m \<and> Signers m1 = Signers m \<and>
     length (Signatures m1) = length (Signatures m)"
proof (induction ss arbitrary: m)
  case Nil
  then show ?case by simp
next
  case (Cons s ss)
  show ?case
  proof (cases "AddSignature m s")
    case Panic
    with Cons.prems show ?thesis by simp
  next
    case (Return err m2)
    with Cons.prems have "AddSignatures m2 ss = Some m1" by simp
    from Cons.IH [OF this] AddSignature_keeps [OF Return] show ?thesis by simp
  qed
qed

lemma MultiSig_Address_cong:
  "Msg m1 = Msg m \<Longrightarrow> M m1 = M m \<Longrightarrow> Signers m1 = Signers m \<Longrightarrow>
     MultiSig_Address hash marshal m1 = MultiSig_Address hash marshal m"
  by (simp add: MultiSig_Address_def)

lemma append_signed_filter:
  "append_signed xs acc = acc @ filter (\<lambda>it. Sign it \<noteq> None) xs"
  by (induction xs arbitrary: acc) auto

lemma place_signatures_append:
  "place_signatures (as @ bs) slots =
     (case place_signatures as slots of None \<Rightarrow> None | Some s1 \<Rightarrow> place_signatures bs s1)"
  by (induction as arbitrary: slots) auto

lemma place_signatures_length:
  "place_signatures items slots = Some slots1 \<Longrightarrow> length slots1 = length slots"
  by (induction items arbitrary: slots) (auto split: if_splits)

lemma place_signatures_filter:
  assumes "\<forall>i<length xs. Sign (xs ! i) \<noteq> None \<longrightarrow> Index (xs ! i) = int i \<and> i < length slots"
  shows "\<exists>slots1. place_signatures (filter (\<lambda>it. Sign it \<noteq> None) xs) slots = Some slots1
           \<and> length slots1 = length slots
           \<and> (\<forall>i<length slots. slots1 ! i =
                 (if i < length xs \<and> Sign (xs ! i) \<noteq> None then xs ! i else slots ! i))"
  using assms
proof (induction xs rule: rev_induct)
  case Nil
  then show ?case by simp
next
  case (snoc x xs)
  have pre: "\<forall>i<length xs. Sign (xs ! i) \<noteq> None \<longrightarrow> Index (xs ! i) = int i \<and> i < length slots"
  proof (intro allI impI)
    fix i assume i: "i < length xs" and s: "Sign (xs ! i) \<noteq> None"
    from snoc.prems [rule_format, of i] i s show "Index (xs ! i) = int i \<and> i < length slots"
      by (simp add: nth_append)
  qed
  from snoc.IH [OF pre] obtain slots1 where
    p: "place_signatures (filter (\<lambda>it. Sign it \<noteq> None) xs) slots = Some slots1"
    and l: "length slots1 = length slots"
    and n: "\<forall>i<length slots. slots1 ! i =
                 (if i < length xs \<and> Sign (xs ! i) \<noteq> None then xs ! i else slots ! i)"
    by blast
  show ?case
  proof (cases "Sign x = None")
    case True
    with p l n show ?thesis by (auto simp: nth_append)
  next
    case False
    from snoc.prems [rule_format, of "length xs"] False
    have ix: "Index x = int (length xs)" and lt: "length xs < length slots" by simp_all
    from False p ix lt l
    have "place_signatures (filter (\<lambda>it. Sign it \<noteq> None) (xs @ [x])) slots
            = Some (slots1[length xs := x])"
      by (simp add: place_signatures_append)
    moreover have "\<forall>i<length slots. (slots1[length xs := x]) ! i =
        (if i < length (xs @ [x]) \<and> Sign ((xs @ [x]) ! i) \<noteq> None then (xs @ [x]) ! i else slots ! i)"
      using n l lt False by (auto simp: nth_append nth_list_update)
    ultimately show ?thesis using l by simp
  qed
qed

text \<open>
  C10. A signature whose \<open>Index\<close> is negative or at least \<open>len(m.Signers)\<close> makes
  \<open>AddSignature\<close> panic: the signer list is indexed with no bounds check before, and no
  error is returned.
\<close>

theorem AddSignature_out_of_range_panics:
  "Index s < 0 \<or> int (length (Signers m)) \<le> Index s \<Longrightarrow> AddSignature m s = Panic"
  by (simp add: AddSignature_def)

theorem AddSignature_out_of_range_panics_witness:
  "(Index \<lparr>Index = 5, Address = [1], Sign = Some [7]\<rparr> < 0
      \<or> int (length (Signers \<lparr>Msg = [], M = 1, Signers = [[1]], Signatures = [zero_BTCSignature]\<rparr>))
          \<le> Index \<lparr>Index = 5, Address = [1], Sign = Some [7]\<rparr>)
   \<and> AddSignature \<lparr>Msg = [], M = 1, Signers = [[1]], Signatures = [zero_BTCSignature]\<rparr>
        \<lparr>Index = 5, Address = [1], Sign = Some [7]\<rparr> = Panic"
  using AddSignature_out_of_range_panics
    [of "\<lparr>Index = 5, Address = [1], Sign = Some [7]\<rparr>"
        "\<lparr>Msg = [], M = 1, Signers = [[1]], Signatures = [zero_BTCSignature]\<rparr>"]
  by simp

text \<open>
  C8, as the code has it. For a signature whose \<open>Index\<close> is within the signer list:
  an address different from \<open>Signers[Index]\<close> is rejected with the unexpected-signer
  error and the receiver (so its \<open>Signatures\<close>) is as before; an equal address is
  accepted and the signature stored at slot \<open>Index\<close>, every other slot as before,
  provided the multi-signature has a signature slot at that index (as every value built
  by \<open>NewBTCMultiSig\<close> or \<open>FromBytes\<close> has).
\<close>

theorem AddSignature_in_range:
  assumes "0 \<le> Index s" and "Index s < int (length (Signers m))"
  shows "(Address s \<noteq> Signers m ! nat (Index s) \<longrightarrow>
            AddSignature m s = Return (Some ErrNotExpectedSigner) m)
       \<and> (Address s = Signers m ! nat (Index s) \<and> Index s < int (length (Signatures m)) \<longrightarrow>
            (\<exists>m1. AddSignature m s = Return None m1
               \<and> Msg m1 = Msg m \<and> M m1 = M m \<and> Signers m1 = Signers m
               \<and> length (Signatures m1) = length (Signatures m)
               \<and> Signatures m1 ! nat (Index s) = s
               \<and> (\<forall>j < length (Signatures m). j \<noteq> nat (Index s) \<longrightarrow>
                     Signatures m1 ! j = Signatures m ! j)))"
  using assms by (auto simp: AddSignature_def)

theorem AddSignature_in_range_witness:
  "AddSignature \<lparr>Msg = [9], M = 1, Signers = [[1], [2]],
                 Signatures = [zero_BTCSignature, zero_BTCSignature]\<rparr>
     \<lparr>Index = 1, Address = [1], Sign = Some [7]\<rparr>
   = Return (Some ErrNotExpectedSigner)
       \<lparr>Msg = [9], M = 1, Signers = [[1], [2]],
        Signatures = [zero_BTCSignature, zero_BTCSignature]\<rparr>
   \<and> (\<exists>m1. AddSignature \<lparr>Msg = [9], M = 1, Signers = [[1], [2]],
                 Signatures = [zero_BTCSignature, zero_BTCSignature]\<rparr>
               \<lparr>Index = 1, Address = [2], Sign = Some [7]\<rparr> = Return None m1
          \<and> Signatures m1 ! 1 = \<lparr>Index = 1, Address = [2], Sign = Some [7]\<rparr>
          \<and> Signatures m1 ! 0 = zero_BTCSignature)"
  using AddSignature_in_range
    [of "\<lparr>Index = 1, Address = [1], Sign = Some [7]\<rparr>"
        "\<lparr>Msg = [9], M = 1, Signers = [[1], [2]],
          Signatures = [zero_BTCSignature, zero_BTCSignature]\<rparr>"]
    AddSignature_in_range
    [of "\<lparr>Index = 1, Address = [2], Sign = Some [7]\<rparr>"
        "\<lparr>Msg = [9], M = 1, Signers = [[1], [2]],
          Signatures = [zero_BTCSignature, zero_BTCSignature]\<rparr>"]
  by auto

text \<open>
  C8 as stated fails: the index is within the signer list and the address is the
  recorded one, yet the multi-signature has no signature slot there (its \<open>Signatures\<close>
  slice is shorter than \<open>Signers\<close>, as in the copy \<open>Address()\<close> builds), and the store
  panics instead of succeeding.
\<close>

theorem AddSignature_short_slots_counterexample:
  "0 \<le> Index \<lparr>Index = 0, Address = [1], Sign = Some [7]\<rparr>
   \<and> Index \<lparr>Index = 0, Address = [1], Sign = Some [7]\<rparr>
       < int (length (Signers \<lparr>Msg = [], M = 0, Signers = [[1]], Signatures = []\<rparr>))
   \<and> Address \<lparr>Index = 0, Address = [1], Sign = Some [7]\<rparr>
       = Signers \<lparr>Msg = [], M = 0, Signers = [[1]], Signatures = []\<rparr> ! 0
   \<and> AddSignature \<lparr>Msg = [], M = 0, Signers = [[1]], Signatures = []\<rparr>
        \<lparr>Index = 0, Address = [1], Sign = Some [7]\<rparr> = Panic"
  by (simp add: AddSignature_def)

text \<open>
  C7, as the code has it. \<open>NewBTCMultiSig\<close> fails with the missing-signers error exactly
  when \<open>signers\<close> is nil. For a non-nil signer list, the empty one included, it fails
  with the invalid-threshold error exactly when \<open>m < 0\<close> or \<open>m > len(signers)\<close>, and
  otherwise returns a multi-signature with the message, threshold \<open>m\<close>, the given
  signers and one signature slot per signer, all empty.
\<close>

theorem NewBTCMultiSig_cases:
  "(NewBTCMultiSig msg m signers = Inl ErrMissSigners \<longleftrightarrow> signers = None)
   \<and> (\<forall>ss. signers = Some ss \<longrightarrow>
         (NewBTCMultiSig msg m signers = Inl ErrInvalidThreshold \<longleftrightarrow> m < 0 \<or> m > int (length ss))
       \<and> (0 \<le> m \<and> m \<le> int (length ss) \<longrightarrow>
            (\<exists>ms. NewBTCMultiSig msg m signers = Inr ms
               \<and> Msg ms = msg \<and> M ms = m \<and> Signers ms = ss
               \<and> length (Signatures ms) = length ss
               \<and> (\<forall>sg \<in> set (Signatures ms). sg = zero_BTCSignature \<and> Sign sg = None))))"
  by (auto simp: NewBTCMultiSig_def zero_BTCSignature_def split: option.splits)

theorem NewBTCMultiSig_cases_witness:
  "NewBTCMultiSig [9] 3 (Some [[1], [2]]) = Inl ErrInvalidThreshold
   \<and> NewBTCMultiSig [9] 1 None = Inl ErrMissSigners
   \<and> (\<exists>ms. NewBTCMultiSig [9] 1 (Some [[1], [2]]) = Inr ms
         \<and> M ms = 1 \<and> Signers ms = [[1], [2]] \<and> length (Signatures ms) = 2
         \<and> (\<forall>sg \<in> set (Signatures ms). Sign sg = None))"
  using NewBTCMultiSig_cases [of "[9]" 3 "Some [[1], [2]]"]
    NewBTCMultiSig_cases [of "[9]" 1 None]
    NewBTCMultiSig_cases [of "[9]" 1 "Some [[1], [2]]"]
  by auto

text \<open>
  C7 as stated fails: an empty signer list that is not nil passes the nil test; with
  threshold 0 the constructor succeeds, with no signer and no slot.
\<close>

theorem NewBTCMultiSig_empty_signers_counterexample:
  "NewBTCMultiSig [9] 0 (Some []) = Inr \<lparr>Msg = [9], M = 0, Signers = [], Signatures = []\<rparr>
   \<and> NewBTCMultiSig [9] 0 (Some []) \<noteq> Inl ErrMissSigners"
  by (simp add: NewBTCMultiSig_def)

text \<open>
  C5. \<open>Address()\<close> of a multi-signature built by \<open>NewBTCMultiSig\<close> is the same after
  attaching any signatures in any order as on the fresh value: two runs of attachments
  from the same fresh value (say indices 2, 0, 1 and indices 0, 1, 2) end with the
  address of the fresh value. It is computed from the message, the threshold and the
  signer list only.
\<close>

theorem Address_invariant_under_signing:
  assumes "NewBTCMultiSig msg k signers = Inr m0"
    and "AddSignatures m0 ss1 = Some m1"
    and "AddSignatures m0 ss2 = Some m2"
  shows "MultiSig_Address hash marshal m1 = MultiSig_Address hash marshal m0
       \<and> MultiSig_Address hash marshal m2 = MultiSig_Address hash marshal m1
       \<and> MultiSig_Address hash marshal m0
           = hash (marshal \<lparr>Msg = msg, M = k, Signers = the signers, Signatures = []\<rparr>)"
proof -
  from AddSignatures_keeps [OF assms(2)]
  have a1: "MultiSig_Address hash marshal m1 = MultiSig_Address hash marshal m0"
    by (intro MultiSig_Address_cong) simp_all
  from AddSignatures_keeps [OF assms(3)]
  have a2: "MultiSig_Address hash marshal m2 = MultiSig_Address hash marshal m0"
    by (intro MultiSig_Address_cong) simp_all
  from assms(1)
  have a0: "MultiSig_Address hash marshal m0
              = hash (marshal \<lparr>Msg = msg, M = k, Signers = the signers, Signatures = []\<rparr>)"
    by (auto simp: NewBTCMultiSig_def MultiSig_Address_def Bytes_def
        split: option.splits if_splits)
  from a1 a2 a0 show ?thesis by simp
qed

theorem Address_invariant_under_signing_witness:
  "\<exists>m0 m1 m2.
     NewBTCMultiSig [9] 2 (Some [[10], [11], [12]]) = Inr m0
   \<and> AddSignatures m0 [\<lparr>Index = 2, Address = [12], Sign = Some [7, 2]\<rparr>,
                       \<lparr>Index = 0, Address = [10], Sign = Some [7, 0]\<rparr>,
                       \<lparr>Index = 1, Address = [11], Sign = Some [7, 1]\<rparr>] = Some m1
   \<and> AddSignatures m0 [\<lparr>Index = 0, Address = [10], Sign = Some [7, 0]\<rparr>,
                       \<lparr>Index = 1, Address = [11], Sign = Some [7, 1]\<rparr>,
                       \<lparr>Index = 2, Address = [12], Sign = Some [7, 2]\<rparr>] = Some m2
   \<and> MultiSig_Address (\<lambda>w. Msg w @ concat (Signers w)) (\<lambda>w. w) m1
       = MultiSig_Address (\<lambda>w. Msg w @ concat (Signers w)) (\<lambda>w. w) m0
   \<and> MultiSig_Address (\<lambda>w. Msg w @ concat (Signers w)) (\<lambda>w. w) m2
       = MultiSig_Address (\<lambda>w. Msg w @ concat (Signers w)) (\<lambda>w. w) m1
   \<and> MultiSig_Address (\<lambda>w. Msg w @ concat (Signers w)) (\<lambda>w. w) m0 = [9, 10, 11, 12]"
proof -
  let ?s0 = "\<lparr>Index = 0, Address = [10], Sign = Some [7, 0]\<rparr>"
  let ?s1 = "\<lparr>Index = 1, Address = [11], Sign = Some [7, 1]\<rparr>"
  let ?s2 = "\<lparr>Index = 2, Address = [12], Sign = Some [7, 2]\<rparr>"
  let ?m0 = "\<lparr>Msg = [9], M = 2, Signers = [[10], [11], [12]],
              Signatures = [zero_BTCSignature, zero_BTCSignature, zero_BTCSignature]\<rparr>"
  let ?m1 = "\<lparr>Msg = [9], M = 2, Signers = [[10], [11], [12]], Signatures = [?s0, ?s1, ?s2]\<rparr>"
  have n: "NewBTCMultiSig [9] 2 (Some [[10], [11], [12]]) = Inr ?m0"
    by (simp add: NewBTCMultiSig_def numeral_eq_Suc)
  have r1: "AddSignatures ?m0 [?s2, ?s0, ?s1] = Some ?m1"
    by (simp add: AddSignature_def)
  have r2: "AddSignatures ?m0 [?s0, ?s1, ?s2] = Some ?m1"
    by (simp add: AddSignature_def)
  from Address_invariant_under_signing
    [OF n r1 r2, of "\<lambda>w. Msg w @ concat (Signers w)" "\<lambda>w. w"] n r1 r2
  show ?thesis by simp
qed

text \<open>
  C6. Take a multi-signature in which every filled slot \<open>i\<close> (one whose \<open>Sign\<close> is
  not nil) carries \<open>Index = i\<close> and stands for a signer (\<open>i < len(Signers)\<close>), and a
  serializer that decodes into the receiver what was encoded. Then \<open>FromBytes\<close> of
  \<open>Bytes\<close> returns
  no error and a value with the same message, threshold and signers, one slot per
  signer, the same signature (index, address and bytes) at every filled slot, and the
  zero signature at every other slot, although the wire form holds the filled slots only.
\<close>

theorem Bytes_FromBytes_roundtrip:
  assumes rt: "\<And>w. unmarshal (marshal w) m0 = (None, w)"
    and idx: "\<forall>i<length (Signatures m). Sign (Signatures m ! i) \<noteq> None \<longrightarrow>
                Index (Signatures m ! i) = int i \<and> i < length (Signers m)"
  shows "\<exists>m1. FromBytes unmarshal m0 (Bytes marshal m) = Return None m1
           \<and> Msg m1 = Msg m \<and> M m1 = M m \<and> Signers m1 = Signers m
           \<and> length (Signatures m1) = length (Signers m)
           \<and> (\<forall>i<length (Signers m). Signatures m1 ! i =
                 (if i < length (Signatures m) \<and> Sign (Signatures m ! i) \<noteq> None
                  then Signatures m ! i else zero_BTCSignature))"
proof -
  let ?z = "replicate (length (Signers m)) zero_BTCSignature"
  from idx have "\<forall>i<length (Signatures m). Sign (Signatures m ! i) \<noteq> None \<longrightarrow>
                Index (Signatures m ! i) = int i \<and> i < length ?z" by simp
  from place_signatures_filter [OF this] obtain slots1 where
    p: "place_signatures (filter (\<lambda>it. Sign it \<noteq> None) (Signatures m)) ?z = Some slots1"
    and l: "length slots1 = length ?z"
    and n: "\<forall>i<length ?z. slots1 ! i =
              (if i < length (Signatures m) \<and> Sign (Signatures m ! i) \<noteq> None
               then Signatures m ! i else ?z ! i)"
    by blast
  have "FromBytes unmarshal m0 (Bytes marshal m) = Return None (m\<lparr>Signatures := slots1\<rparr>)"
    using p by (simp add: FromBytes_def Bytes_def rt append_signed_filter)
  moreover have "\<forall>i<length (Signers m). slots1 ! i =
              (if i < length (Signatures m) \<and> Sign (Signatures m ! i) \<noteq> None
               then Signatures m ! i else zero_BTCSignature)"
  proof (intro allI impI)
    fix i assume i: "i < length (Signers m)"
    then have "?z ! i = zero_BTCSignature" by simp
    with n [rule_format, of i] i show "slots1 ! i =
              (if i < length (Signatures m) \<and> Sign (Signatures m ! i) \<noteq> None
               then Signatures m ! i else zero_BTCSignature)"
      by (auto simp del: nth_replicate)
  qed
  ultimately show ?thesis using l by simp
qed

theorem Bytes_FromBytes_roundtrip_witness:
  "\<exists>m1. FromBytes (\<lambda>b m0. (None :: unit option, b)) \<lparr>Msg = [], M = 0, Signers = [], Signatures = []\<rparr>
     (Bytes (\<lambda>w. w) \<lparr>Msg = [9], M = 2, Signers = [[0], [1], [2], [3], [4]],
        Signatures = [zero_BTCSignature, \<lparr>Index = 1, Address = [1], Sign = Some [7, 1]\<rparr>, zero_BTCSignature,
           \<lparr>Index = 3, Address = [3], Sign = Some [7, 3]\<rparr>, zero_BTCSignature]\<rparr>) = Return None m1
    \<and> Signers m1 = [[0], [1], [2], [3], [4]]
    \<and> length (Signatures m1) = 5
    \<and> Signatures m1 ! 0 = zero_BTCSignature
    \<and> Signatures m1 ! 1 = \<lparr>Index = 1, Address = [1], Sign = Some [7, 1]\<rparr>
    \<and> Signatures m1 ! 2 = zero_BTCSignature
    \<and> Signatures m1 ! 3 = \<lparr>Index = 3, Address = [3], Sign = Some [7, 3]\<rparr>
    \<and> Signatures m1 ! 4 = zero_BTCSignature"
proof -
  let ?m = "\<lparr>Msg = [9], M = 2, Signers = [[0], [1], [2], [3], [4]],
        Signatures = [zero_BTCSignature, \<lparr>Index = 1, Address = [1], Sign = Some [7, 1]\<rparr>, zero_BTCSignature,
           \<lparr>Index = 3, Address = [3], Sign = Some [7, 3]\<rparr>, zero_BTCSignature]\<rparr>"
  have h: "\<forall>i<length (Signatures ?m). Sign (Signatures ?m ! i) \<noteq> None \<longrightarrow>
                Index (Signatures ?m ! i) = int i \<and> i < length (Signers ?m)"
    by (simp add: zero_BTCSignature_def less_Suc_eq numeral_eq_Suc all_conj_distrib)
  have rt: "\<And>w. (\<lambda>b m0. (None :: unit option, b)) ((\<lambda>w. w) w)
              \<lparr>Msg = [], M = 0, Signers = [], Signatures = []\<rparr> = (None, w)"
    by simp
  from Bytes_FromBytes_roundtrip
         [of "\<lambda>b m0. (None :: unit option, b)" "\<lambda>w. w"
             "\<lparr>Msg = [], M = 0, Signers = [], Signatures = []\<rparr>" ?m, OF rt h]
  obtain m1 where a: "FromBytes (\<lambda>b m0. (None :: unit option, b)) \<lparr>Msg = [], M = 0, Signers = [], Signatures = []\<rparr>
       (Bytes (\<lambda>w. w) ?m) = Return None m1"
    and b: "Signers m1 = Signers ?m" and c: "length (Signatures m1) = length (Signers ?m)"
    and d: "\<forall>i<length (Signers ?m). Signatures m1 ! i =
                 (if i < length (Signatures ?m) \<and> Sign (Signatures ?m ! i) \<noteq> None
                  then Signatures ?m ! i else zero_BTCSignature)"
    by blast
  from d [rule_format, of 0] d [rule_format, of 1] d [rule_format, of 2] d [rule_format, of 3]
    d [rule_format, of 4]
  have "Signatures m1 ! 0 = zero_BTCSignature
    \<and> Signatures m1 ! 1 = \<lparr>Index = 1, Address = [1], Sign = Some [7, 1]\<rparr>
    \<and> Signatures m1 ! 2 = zero_BTCSignature
    \<and> Signatures m1 ! 3 = \<lparr>Index = 3, Address = [3], Sign = Some [7, 3]\<rparr>
    \<and> Signatures m1 ! 4 = zero_BTCSignature"
    by (simp add: zero_BTCSignature_def)
  with a b c show ?thesis by simp
qed

section \<open>Properties of the gas-metered chain state\<close>

lemma Consume_keeps: "snd (Consume g amount category allowOverflow) = g"
  by (simp add: Consume_def)

lemma Consume_ok:
  "fst (Consume g amount category allowOverflow) \<longleftrightarrow> allowOverflow \<or> consumed g < limit g"
  by (auto simp: Consume_def Consume_body_def Let_def)

lemma store_step_calculator:
  "GasCalculator (snd (store_step ops g opn)) = GasCalculator g"
  by (cases opn)
     (auto simp: GasChainState_Set_def GasChainState_Get_def GasChainState_Exists_def
        GasChainState_Remove_def Consume_def Let_def split: prod.splits option.splits)

lemma store_run_calculator:
  "GasCalculator (snd (store_run ops g opns)) = GasCalculator g"
proof (induction opns arbitrary: g)
  case Nil
  then show ?case by simp
next
  case (Cons opn opns)
  obtain e g1 where s: "store_step ops g opn = (e, g1)"
    by (cases "store_step ops g opn")
  obtain es g2 where r: "store_run ops g1 opns = (es, g2)"
    by (cases "store_run ops g1 opns")
  from store_step_calculator [of ops g opn] s have "GasCalculator g1 = GasCalculator g"
    by simp
  moreover from Cons.IH [of g1] r have "GasCalculator g2 = GasCalculator g1"
    by simp
  ultimately show ?case using s r by simp
qed

lemma GasChainState_Set_fresh_1000: "GasChainState_Set map_ChainState
      \<lparr>ChainState = cs, GasCalculator = \<lparr>limit = 1000, consumed = 0\<rparr>\<rparr> [1] [7, 8, 9]
     = (None, \<lparr>ChainState = cs([1] \<mapsto> [7, 8, 9]), GasCalculator = \<lparr>limit = 1000, consumed = 0\<rparr>\<rparr>)"
  by (simp add: GasChainState_Set_def map_ChainState_def Consume_def
      Consume_body_def Let_def)

text \<open>
  C2 fails on the code. On a store whose calculator has limit 1000 and has consumed
  nothing, \<open>Set\<close> of a three-byte value succeeds and the consumed gas is still 0 after
  it, where the flat cost 200 and 20 per byte make 260; and it is still 0 after six such
  writes, none of which reports the gas limit, although their cost, 1560, is above it.
\<close>

theorem GasChainState_Set_charges_nothing:
  "GasChainState_Set map_ChainState
      \<lparr>ChainState = Map.empty, GasCalculator = NewGasCalculator 1000\<rparr> [1] [7, 8, 9]
     = (None, \<lparr>ChainState = [[1] \<mapsto> [7, 8, 9]], GasCalculator = \<lparr>limit = 1000, consumed = 0\<rparr>\<rparr>)
   \<and> GetConsumed (GasCalculator (snd (GasChainState_Set map_ChainState
        \<lparr>ChainState = Map.empty, GasCalculator = NewGasCalculator 1000\<rparr> [1] [7, 8, 9]))) = 0
   \<and> fst (store_run map_ChainState
        \<lparr>ChainState = Map.empty, GasCalculator = NewGasCalculator 1000\<rparr>
        [OpSet [1] [7, 8, 9], OpSet [1] [7, 8, 9], OpSet [1] [7, 8, 9],
         OpSet [1] [7, 8, 9], OpSet [1] [7, 8, 9], OpSet [1] [7, 8, 9]])
       = [None, None, None, None, None, None]
   \<and> GetConsumed (GasCalculator (snd (store_run map_ChainState
        \<lparr>ChainState = Map.empty, GasCalculator = NewGasCalculator 1000\<rparr>
        [OpSet [1] [7, 8, 9], OpSet [1] [7, 8, 9], OpSet [1] [7, 8, 9],
         OpSet [1] [7, 8, 9], OpSet [1] [7, 8, 9], OpSet [1] [7, 8, 9]]))) = 0"
  by (simp add: GasChainState_Set_fresh_1000 NewGasCalculator_def GetConsumed_def)

section \<open>Properties of the transition engine and the tracker handlers\<close>

text \<open>
  The four handlers that compare the tracker's state with the source status of their
  transition: in any other state they return an error and leave the context as it was.
\<close>

lemma Broadcasting_guard:
  "State (Tracker context) \<noteq> New \<Longrightarrow>
     Broadcasting co (IsTrackerCtx context)
       = (Some (Wrap_State (Error ''Cannot Broadcast from the current state'') (State (Tracker context))),
          IsTrackerCtx context)"
  by (simp add: Broadcasting_def)

lemma Finalizing_guard:
  "State (Tracker context) \<noteq> BusyBroadcasting \<Longrightarrow>
     Finalizing co (IsTrackerCtx context)
       = (Some (Wrap_State (Error ''Cannot start Finalizing from the current state'') (State (Tracker context))),
          IsTrackerCtx context)"
  by (simp add: Finalizing_def)

lemma Finalization_guard:
  "State (Tracker context) \<noteq> BusyFinalizing \<Longrightarrow>
     Finalization co (IsTrackerCtx context)
       = (Some (Wrap_State (Error ''cannot finalize from the current state'') (State (Tracker context))),
          IsTrackerCtx context)"
  by (simp add: Finalization_def)

lemma Minting_guard:
  "State (Tracker context) \<noteq> Finalized \<Longrightarrow>
     Minting co (IsTrackerCtx context)
       = (Some (Wrap_State (Error ''Cannot Mint from the current state'') (State (Tracker context))),
          IsTrackerCtx context)"
  by (simp add: Minting_def)

lemma guarded_handlers_succeed_from_source_only:
  "(fst (Broadcasting co (IsTrackerCtx c)) = None \<longrightarrow> State (Tracker c) = New)
   \<and> (fst (Finalizing co (IsTrackerCtx c)) = None \<longrightarrow> State (Tracker c) = BusyBroadcasting)
   \<and> (fst (Finalization co (IsTrackerCtx c)) = None \<longrightarrow> State (Tracker c) = BusyFinalizing)
   \<and> (fst (Minting co (IsTrackerCtx c)) = None \<longrightarrow> State (Tracker c) = Finalized)"
  by (intro conjI impI; rule ccontr)
     (simp_all add: Broadcasting_guard Finalizing_guard Finalization_guard Minting_guard)

text \<open>
  \<open>Cleanup\<close> never reads the tracker's state: what it does on a tracker in one state it
  does on the same tracker in any other state, whatever the collaborators.
\<close>

lemma Cleanup_ignores_State:
  "Cleanup co (IsTrackerCtx (context\<lparr>Tracker := (Tracker context)\<lparr>State := s\<rparr>\<rparr>))
     = (case Cleanup co (IsTrackerCtx context) of
          (err, IsTrackerCtx c1) \<Rightarrow> (err, IsTrackerCtx (c1\<lparr>Tracker := (Tracker c1)\<lparr>State := s\<rparr>\<rparr>))
        | (err, OtherValue) \<Rightarrow> (err, OtherValue))"
  by (simp add: Cleanup_def GetJobID_def Let_def split: sum.splits prod.splits option.splits)

text \<open>
  With the job store as a map in which every job is stored under its own key, the second
  lookup of the broadcasting job comes after its deletion and fails: \<open>Cleanup\<close>
  returns an error on every context.
\<close>

lemma Cleanup_map_never_succeeds:
  assumes "\<forall>k j. JobStore c k = Some j \<longrightarrow> Job_GetJobID j = k"
  shows "fst (Cleanup map_collaborators (IsTrackerCtx c)) \<noteq> None"
proof (cases "JobStore c (GetJobID (Tracker c) BusyBroadcasting)")
  case None
  then show ?thesis
    by (simp add: Cleanup_def map_collaborators_def Let_def)
next
  case (Some bjob)
  with assms have "Job_GetJobID bjob = GetJobID (Tracker c) BusyBroadcasting"
    by blast
  with Some show ?thesis
    by (simp add: Cleanup_def map_collaborators_def Let_def)
qed

text \<open>
  C9. \<open>init\<close> registers all five transitions without a panic, and the engine it leaves
  holds exactly them, under five different names: \<open>BROADCASTING\<close> from \<open>New\<close> to
  \<open>BusyBroadcasting\<close>, \<open>FINALIZING\<close> from \<open>BusyBroadcasting\<close> to \<open>BusyFinalizing\<close>,
  \<open>FINALIZE\<close> from \<open>BusyFinalizing\<close> to \<open>Finalized\<close>, \<open>MINTING\<close> from \<open>Finalized\<close> to
  \<open>Minted\<close> and \<open>CLEANUP\<close> from \<open>Minted\<close> to the status 0. Every edge goes one step
  forward; none goes back.
\<close>

theorem EthEngine_graph:
  "init co = Some
     \<lparr>statuses = [Status New, Status BusyBroadcasting, Status BusyFinalizing,
                  Status Finalized, Status Minted],
      transitions =
        [BROADCASTING \<mapsto> \<lparr>Name = BROADCASTING, Fn = Broadcasting co,
                           From = Status New, To = Status BusyBroadcasting\<rparr>,
         FINALIZING \<mapsto> \<lparr>Name = FINALIZING, Fn = Finalizing co,
                         From = Status BusyBroadcasting, To = Status BusyFinalizing\<rparr>,
         FINALIZE \<mapsto> \<lparr>Name = FINALIZE, Fn = Finalization co,
                       From = Status BusyFinalizing, To = Status Finalized\<rparr>,
         MINTING \<mapsto> \<lparr>Name = MINTING, Fn = Minting co,
                      From = Status Finalized, To = Status Minted\<rparr>,
         CLEANUP \<mapsto> \<lparr>Name = CLEANUP, Fn = Cleanup co,
                      From = Status Minted, To = Status_0\<rparr>]\<rparr>
   \<and> distinct [BROADCASTING, FINALIZING, FINALIZE, MINTING, CLEANUP]"
  by (simp add: init_def NewEngine_def Register_def
      BROADCASTING_def FINALIZING_def FINALIZE_def MINTING_def CLEANUP_def)

text \<open>
  C1 fails on the code, for \<open>Cleanup\<close>, which does not compare the tracker's state with
  \<open>Minted\<close>. On the tracker \<open>t1\<close> in state \<open>New\<close>, with its jobs stored, \<open>Cleanup\<close>
  deletes the broadcasting job and then returns an error: the state is not the source
  status of the transition, and the tracker's jobs are not as before.
\<close>

theorem Cleanup_in_state_New_deletes_job:
  "State (Tracker (example_TrackerCtx New)) = New
   \<and> JobStore (example_TrackerCtx New) (''t1'', BusyBroadcasting)
       = Some ((NewETHBroadcast ''t1'' BusyBroadcasting)\<lparr>Done := True\<rparr>)
   \<and> Cleanup map_collaborators (IsTrackerCtx (example_TrackerCtx New))
       = (Some (Wrap (Error ''JobNotFound'') ''failed to get job''),
          IsTrackerCtx ((example_TrackerCtx New)
            \<lparr>JobStore := example_JobStore((''t1'', BusyBroadcasting) := None)\<rparr>))
   \<and> (example_JobStore((''t1'', BusyBroadcasting) := None)) (''t1'', BusyBroadcasting) = None"
  by (simp add: Cleanup_def map_collaborators_def example_TrackerCtx_def example_Tracker_def
      example_JobStore_def GetJobID_def Job_GetJobID_def NewETHBroadcast_def
      NewETHCheckFinality_def Let_def)

text \<open>
  On the tracker \<open>t1\<close> in state \<open>Minted\<close>, with both jobs and the tracker stored in
  maps, \<open>Cleanup\<close> deletes the broadcasting job, looks the same job up again where the
  finality-check job is meant, and returns the error of that lookup: the finality-check
  job and the tracker record are still stored.
\<close>

lemma Cleanup_in_state_Minted_keeps_finality_job:
  "Cleanup map_collaborators (IsTrackerCtx (example_TrackerCtx Minted))
       = (Some (Wrap (Error ''JobNotFound'') ''failed to get job''),
          IsTrackerCtx ((example_TrackerCtx Minted)
            \<lparr>JobStore := example_JobStore((''t1'', BusyBroadcasting) := None)\<rparr>))
   \<and> (example_JobStore((''t1'', BusyBroadcasting) := None)) (''t1'', BusyFinalizing)
       = Some ((NewETHCheckFinality ''t1'' BusyFinalizing)\<lparr>Done := True\<rparr>)
   \<and> TrackerStore ((example_TrackerCtx Minted)
            \<lparr>JobStore := example_JobStore((''t1'', BusyBroadcasting) := None)\<rparr>) ''t1''
       = Some (example_Tracker Minted)"
  by (simp add: Cleanup_def map_collaborators_def example_TrackerCtx_def example_Tracker_def
      example_JobStore_def GetJobID_def Job_GetJobID_def NewETHBroadcast_def
      NewETHCheckFinality_def Let_def)

text \<open>
  What a successful run of \<open>Cleanup\<close> has done, whatever the collaborators: both lookups
  were under the key of the broadcasting job, both deletions were of the jobs found
  there, and \<open>Delete\<close> of the tracker store returned no error, with either flag.
\<close>

lemma Cleanup_success:
  assumes "Cleanup co (IsTrackerCtx c) = (None, r)"
  shows "\<exists>bjob js1 fjob js2 res ts1.
           GetJob co (JobStore c) (GetJobID (Tracker c) BusyBroadcasting) = Inr bjob
         \<and> DeleteJob co (JobStore c) bjob = (None, js1)
         \<and> GetJob co js1 (GetJobID (Tracker c) BusyBroadcasting) = Inr fjob
         \<and> DeleteJob co js1 fjob = (None, js2)
         \<and> Delete co (TrackerStore c) (Tracker.TrackerName (Tracker c)) = ((res, None), ts1)
         \<and> r = IsTrackerCtx (c\<lparr>JobStore := js2, TrackerStore := ts1\<rparr>)"
  using assms
  by (auto simp: Cleanup_def Let_def split: sum.splits prod.splits option.splits if_splits)


section \<open>Properties of the tracker store\<close>

lemma visit_tracker_continues: "fst (visit_tracker D A k v acc) = False"
  by (cases acc) (simp add: visit_tracker_def split: option.splits)

lemma iterate_visit_tracker_continues:
  "fst (iterate es (visit_tracker D A) acc) = False"
proof (induction es arbitrary: acc)
  case Nil
  then show ?case by simp
next
  case (Cons e es)
  obtain k v where e: "e = (k, v)" by (cases e)
  obtain acc1 where v: "visit_tracker D A k v acc = (False, acc1)"
    using visit_tracker_continues [of D A k v acc]
    by (cases "visit_tracker D A k v acc") simp
  from Cons.IH [of acc1] e v show ?case by simp
qed

lemma iterate_visit_tracker_snoc:
  "snd (iterate (es @ [(k, v)]) (visit_tracker D A) acc)
     = snd (visit_tracker D A k v (snd (iterate es (visit_tracker D A) acc)))"
proof (induction es arbitrary: acc)
  case Nil
  then show ?case by (simp split: prod.splits)
next
  case (Cons e es)
  obtain k1 v1 where e: "e = (k1, v1)" by (cases e)
  obtain acc1 where v: "visit_tracker D A k1 v1 acc = (False, acc1)"
    using visit_tracker_continues [of D A k1 v1 acc]
    by (cases "visit_tracker D A k1 v1 acc") simp
  from Cons.IH [of acc1] e v show ?case by simp
qed

lemma scan_inv_iterate:
  "scan_inv D A es low (snd (iterate es (visit_tracker D A) (low, None)))"
proof (induction es rule: rev_induct)
  case Nil
  then show ?case by (simp add: scan_inv_def)
next
  case (snoc e es)
  obtain k v where e: "e = (k, v)" by (cases e)
  obtain low1 tmp1 where r: "snd (iterate es (visit_tracker D A) (low, None)) = (low1, tmp1)"
    by (cases "snd (iterate es (visit_tracker D A) (low, None))")
  from snoc.IH r have
    b: "\<forall>j<length es. \<forall>d. D (snd (es ! j)) = Some d \<and> A d \<longrightarrow> low1 \<le> CurrentBalance d"
    and c: "(tmp1 = None \<and> low1 = low)
          \<or> (\<exists>i<length es. \<exists>d. D (snd (es ! i)) = Some d \<and> A d \<and> tmp1 = Some d
                \<and> low1 = CurrentBalance d \<and> CurrentBalance d < low
                \<and> (\<forall>j<i. \<forall>d1. D (snd (es ! j)) = Some d1 \<and> A d1 \<longrightarrow>
                      CurrentBalance d < CurrentBalance d1))"
    by (simp_all add: scan_inv_def)
  from c have le: "low1 \<le> low" by auto
  have step: "snd (iterate (es @ [e]) (visit_tracker D A) (low, None))
                = snd (visit_tracker D A k v (low1, tmp1))"
    using iterate_visit_tracker_snoc [of es k v D A "(low, None)"] e r by simp
  show ?case
  proof (cases "\<exists>d. D v = Some d \<and> A d \<and> CurrentBalance d < low1")
    case True
    then obtain d where d: "D v = Some d" "A d" "CurrentBalance d < low1" by blast
    have res: "snd (iterate (es @ [e]) (visit_tracker D A) (low, None)) = (CurrentBalance d, Some d)"
      using step d by (simp add: visit_tracker_def GetBalance_def)
    have b': "\<forall>j<length (es @ [e]). \<forall>d1. D (snd ((es @ [e]) ! j)) = Some d1 \<and> A d1 \<longrightarrow>
                CurrentBalance d \<le> CurrentBalance d1"
    proof (intro allI impI)
      fix j d1 assume j: "j < length (es @ [e])" and h: "D (snd ((es @ [e]) ! j)) = Some d1 \<and> A d1"
      show "CurrentBalance d \<le> CurrentBalance d1"
      proof (cases "j < length es")
        case True
        with h b have "low1 \<le> CurrentBalance d1" by (simp add: nth_append)
        with d show ?thesis by simp
      next
        case False
        with j have "j = length es" by simp
        with h e d show ?thesis by simp
      qed
    qed
    have c': "\<exists>i<length (es @ [e]). \<exists>d0. D (snd ((es @ [e]) ! i)) = Some d0 \<and> A d0 \<and> Some d = Some d0
                \<and> CurrentBalance d = CurrentBalance d0 \<and> CurrentBalance d0 < low
                \<and> (\<forall>j<i. \<forall>d1. D (snd ((es @ [e]) ! j)) = Some d1 \<and> A d1 \<longrightarrow>
                      CurrentBalance d0 < CurrentBalance d1)"
    proof (intro exI [of _ "length es"] exI [of _ d] conjI allI impI)
      show "length es < length (es @ [e])" by simp
      show "D (snd ((es @ [e]) ! length es)) = Some d" using e d by simp
      show "A d" by fact
      show "Some d = Some d" by simp
      show "CurrentBalance d = CurrentBalance d" by simp
      show "CurrentBalance d < low" using d le by simp
    next
      fix j d1 assume j: "j < length es" and h: "D (snd ((es @ [e]) ! j)) = Some d1 \<and> A d1"
      with b have "low1 \<le> CurrentBalance d1" by (simp add: nth_append)
      with d show "CurrentBalance d < CurrentBalance d1" by simp
    qed
    from res b' c' show ?thesis by (simp add: scan_inv_def)
  next
    case False
    have res: "snd (iterate (es @ [e]) (visit_tracker D A) (low, None)) = (low1, tmp1)"
      using step False by (auto simp: visit_tracker_def GetBalance_def split: option.splits)
    have b': "\<forall>j<length (es @ [e]). \<forall>d1. D (snd ((es @ [e]) ! j)) = Some d1 \<and> A d1 \<longrightarrow>
                low1 \<le> CurrentBalance d1"
    proof (intro allI impI)
      fix j d1 assume j: "j < length (es @ [e])" and h: "D (snd ((es @ [e]) ! j)) = Some d1 \<and> A d1"
      show "low1 \<le> CurrentBalance d1"
      proof (cases "j < length es")
        case True
        with h b show ?thesis by (simp add: nth_append)
      next
        case False
        with j have "j = length es" by simp
        with h e have "D v = Some d1 \<and> A d1" by simp
        with \<open>\<not> (\<exists>d. D v = Some d \<and> A d \<and> CurrentBalance d < low1)\<close>
        show ?thesis by auto
      qed
    qed
    have c': "(tmp1 = None \<and> low1 = low)
          \<or> (\<exists>i<length (es @ [e]). \<exists>d. D (snd ((es @ [e]) ! i)) = Some d \<and> A d \<and> tmp1 = Some d
                \<and> low1 = CurrentBalance d \<and> CurrentBalance d < low
                \<and> (\<forall>j<i. \<forall>d1. D (snd ((es @ [e]) ! j)) = Some d1 \<and> A d1 \<longrightarrow>
                      CurrentBalance d < CurrentBalance d1))"
    proof (cases "tmp1 = None \<and> low1 = low")
      case True
      then show ?thesis by simp
    next
      case False
      with c obtain i d where i: "i < length es" and dd: "D (snd (es ! i)) = Some d" "A d" "tmp1 = Some d"
        "low1 = CurrentBalance d" "CurrentBalance d < low"
        and m: "\<forall>j<i. \<forall>d1. D (snd (es ! j)) = Some d1 \<and> A d1 \<longrightarrow> CurrentBalance d < CurrentBalance d1"
        by blast
      have "\<forall>j<i. \<forall>d1. D (snd ((es @ [e]) ! j)) = Some d1 \<and> A d1 \<longrightarrow> CurrentBalance d < CurrentBalance d1"
        using m i by (simp add: nth_append)
      moreover have "D (snd ((es @ [e]) ! i)) = Some d" using dd i by (simp add: nth_append)
      moreover have "i < length (es @ [e])" using i by simp
      ultimately show ?thesis using dd by blast
    qed
    from res b' c' show ?thesis by (simp add: scan_inv_def)
  qed
qed

lemma GetTrackerForLock_scan:
  "GetTrackerForLock D A ts =
     (case snd (snd (iterate (scanned ts) (visit_tracker D A) (999999999999999, None))) of
        None \<Rightarrow> Inl NoTrackerFound | Some d \<Rightarrow> Inr d)"
  by (simp add: GetTrackerForLock_def IterateRange_def scanned_def Let_def split: prod.splits)

lemma sorted_scanned: "sorted (map fst (scanned ts))"
  by (simp add: scanned_def range_entries_def split: prod.splits)

text \<open>
  The result in terms of the scanned entries, for every store: the error exactly when no
  scanned entry is eligible, and otherwise the first eligible tracker of lowest balance.
\<close>

lemma GetTrackerForLock_over_scanned:
  "(GetTrackerForLock D A ts = Inl NoTrackerFound \<longleftrightarrow> (\<forall>i d. \<not> eligible D A ts i d))
   \<and> (GetTrackerForLock D A ts \<noteq> Inl NoTrackerFound \<longrightarrow>
        (\<exists>i d. GetTrackerForLock D A ts = Inr d \<and> eligible D A ts i d
           \<and> (\<forall>j d1. eligible D A ts j d1 \<longrightarrow>
                 CurrentBalance d \<le> CurrentBalance d1
               \<and> (CurrentBalance d1 = CurrentBalance d \<longrightarrow>
                     i \<le> j \<and> fst (scanned ts ! i) \<le> fst (scanned ts ! j)))))"


proof -
  let ?es = "scanned ts"
  let ?S = "999999999999999 :: int"
  obtain low1 tmp1 where r: "snd (iterate ?es (visit_tracker D A) (?S, None)) = (low1, tmp1)"
    by (cases "snd (iterate ?es (visit_tracker D A) (?S, None))")
  from scan_inv_iterate [of D A ?es ?S] r have
    b: "\<forall>j<length ?es. \<forall>d. D (snd (?es ! j)) = Some d \<and> A d \<longrightarrow> low1 \<le> CurrentBalance d"
    and c: "(tmp1 = None \<and> low1 = ?S)
          \<or> (\<exists>i<length ?es. \<exists>d. D (snd (?es ! i)) = Some d \<and> A d \<and> tmp1 = Some d
                \<and> low1 = CurrentBalance d \<and> CurrentBalance d < ?S
                \<and> (\<forall>j<i. \<forall>d1. D (snd (?es ! j)) = Some d1 \<and> A d1 \<longrightarrow>
                      CurrentBalance d < CurrentBalance d1))"
    by (simp_all add: scan_inv_def)
  have g: "GetTrackerForLock D A ts = (case tmp1 of None \<Rightarrow> Inl NoTrackerFound | Some d \<Rightarrow> Inr d)"
    using r by (simp add: GetTrackerForLock_scan)
  show ?thesis
  proof (cases tmp1)
    case None
    with c have "low1 = ?S" by auto
    with b have "\<forall>i d. \<not> eligible D A ts i d"
      by (fastforce simp: eligible_def)
    with g None show ?thesis by simp
  next
    case (Some d)
    with c obtain i where i: "i < length ?es" and dd: "D (snd (?es ! i)) = Some d" "A d"
        "low1 = CurrentBalance d" "CurrentBalance d < ?S"
        and m: "\<forall>j<i. \<forall>d1. D (snd (?es ! j)) = Some d1 \<and> A d1 \<longrightarrow> CurrentBalance d < CurrentBalance d1"
      by auto
    have el: "eligible D A ts i d" using i dd by (simp add: eligible_def)
    have best: "\<forall>j d1. eligible D A ts j d1 \<longrightarrow>
                 CurrentBalance d \<le> CurrentBalance d1
               \<and> (CurrentBalance d1 = CurrentBalance d \<longrightarrow>
                     i \<le> j \<and> fst (scanned ts ! i) \<le> fst (scanned ts ! j))"
    proof (intro allI impI conjI)
      fix j d1 assume e1: "eligible D A ts j d1"
      then have j: "j < length ?es" and d1: "D (snd (?es ! j)) = Some d1" "A d1"
        by (simp_all add: eligible_def)
      from b j d1 dd show "CurrentBalance d \<le> CurrentBalance d1" by auto
      assume eq: "CurrentBalance d1 = CurrentBalance d"
      show ij: "i \<le> j"
      proof (rule ccontr)
        assume "\<not> i \<le> j"
        then have "j < i" by simp
        with m d1 have "CurrentBalance d < CurrentBalance d1" by blast
        with eq show False by simp
      qed
      from sorted_scanned [of ts] ij j have "map fst ?es ! i \<le> map fst ?es ! j"
        by (intro sorted_nth_mono) simp_all
      with i j show "fst (scanned ts ! i) \<le> fst (scanned ts ! j)" by simp
    qed
    from g Some el best show ?thesis by auto
  qed
qed

lemma scan_bounds_apart:
  "prefix_cap ts < length (prefix ts) + 10 \<Longrightarrow>
     scanned ts = range_entries (bitcoin_TrackerStore.State ts)
                    (prefix ts @ bytes_of ''tracker_  '') (prefix ts @ bytes_of ''tracker_~~'')"
  by (simp add: scanned_def append_twice_def bytes_of_def)

text \<open>
  When the prefix slice has room for ten more bytes, \<open>start\<close> and \<open>end\<close> share its array:
  both read \<open>prefix + "tracker_~~"\<close>, nothing is scanned, and the error is returned
  whatever is stored.
\<close>

lemma in_range_empty: "\<not> in_range x x k"
  by (auto simp: in_range_def)

lemma range_entries_empty: "range_entries st x x = []"
  by (simp add: range_entries_def in_range_empty)

lemma scan_bounds_shared:
  assumes "length (prefix ts) + 10 \<le> prefix_cap ts"
  shows "append_twice (prefix ts) (prefix_cap ts) (bytes_of ''tracker_  '') (bytes_of ''tracker_~~'')
       = (prefix ts @ bytes_of ''tracker_~~'', prefix ts @ bytes_of ''tracker_~~'')
     \<and> scanned ts = []
     \<and> GetTrackerForLock D A ts = Inl NoTrackerFound"
proof -
  from assms have
    b: "append_twice (prefix ts) (prefix_cap ts) (bytes_of ''tracker_  '') (bytes_of ''tracker_~~'')
          = (prefix ts @ bytes_of ''tracker_~~'', prefix ts @ bytes_of ''tracker_~~'')"
    by (simp add: append_twice_def bytes_of_def)
  then have s: "scanned ts = []"
    by (simp add: scanned_def range_entries_empty)
  then have "GetTrackerForLock D A ts = Inl NoTrackerFound"
    by (simp add: GetTrackerForLock_scan)
  with b s show ?thesis by simp
qed

lemma GetTrackerForLock_example_cap16:
  "GetTrackerForLock example_Deserialize example_IsAvailable example_TrackerStore_cap16
     = Inl NoTrackerFound"
  by (rule scan_bounds_shared [THEN conjunct2, THEN conjunct2])
     (simp add: example_TrackerStore_cap16_def example_TrackerStore_def bytes_of_def)

lemma scanned_example_TrackerStore:
  "scanned example_TrackerStore =
     [(bytes_of ''btct_tracker_a'', [1]), (bytes_of ''btct_tracker_b'', [2]),
      (bytes_of ''btct_tracker_c'', [3])]"
  by (simp add: scanned_def append_twice_def range_entries_def example_TrackerStore_def
      in_range_def bytes_of_def)

lemma scanned_example_TrackerStore_D:
  "scanned example_TrackerStore_D = [(bytes_of ''btct_tracker_d'', [4])]"
  by (simp add: scanned_def append_twice_def range_entries_def example_TrackerStore_D_def
      in_range_def bytes_of_def)

lemma scanned_example_TrackerStore_A:
  "scanned example_TrackerStore_A = []"
  by (simp add: scanned_def append_twice_def range_entries_def example_TrackerStore_A_def
      in_range_def bytes_of_def)

text \<open>
  C4, as the code has it by design. Take a store whose prefix slice has room for fewer
  than ten more bytes, so that \<open>start\<close> and \<open>end\<close> are built apart. \<open>GetTrackerForLock\<close>
  scans the entries stored under the keys from \<open>prefix + "tracker_  "\<close> to
  \<open>prefix + "tracker_~~"\<close> in ascending key order. It fails with the no-tracker-found
  error exactly when none of them is eligible (decodes to an available tracker whose
  balance is below \<open>999999999999999\<close>). Otherwise it returns an eligible tracker whose
  balance is the lowest among the eligible ones, and among those of that balance the one
  scanned first, that is the one with the least key.
\<close>

theorem GetTrackerForLock_lowest_eligible:
  assumes "prefix_cap ts < length (prefix ts) + 10"
  shows "scanned ts = range_entries (bitcoin_TrackerStore.State ts)
                        (prefix ts @ bytes_of ''tracker_  '') (prefix ts @ bytes_of ''tracker_~~'')
   \<and> (GetTrackerForLock D A ts = Inl NoTrackerFound \<longleftrightarrow> (\<forall>i d. \<not> eligible D A ts i d))
   \<and> (GetTrackerForLock D A ts \<noteq> Inl NoTrackerFound \<longrightarrow>
        (\<exists>i d. GetTrackerForLock D A ts = Inr d \<and> eligible D A ts i d
           \<and> (\<forall>j d1. eligible D A ts j d1 \<longrightarrow>
                 CurrentBalance d \<le> CurrentBalance d1
               \<and> (CurrentBalance d1 = CurrentBalance d \<longrightarrow>
                     i \<le> j \<and> fst (scanned ts ! i) \<le> fst (scanned ts ! j)))))"
  using scan_bounds_apart [OF assms] GetTrackerForLock_over_scanned [of D A ts]
  by blast

theorem GetTrackerForLock_lowest_eligible_witness:
  "prefix_cap example_TrackerStore < length (prefix example_TrackerStore) + 10
   \<and> GetTrackerForLock example_Deserialize example_IsAvailable example_TrackerStore
     = Inr \<lparr>CurrentBalance = 10, Other = (''B'', True)\<rparr>
   \<and> GetTrackerForLock example_Deserialize example_IsAvailable example_TrackerStore
       \<noteq> Inl NoTrackerFound
   \<and> eligible example_Deserialize example_IsAvailable example_TrackerStore 0
         \<lparr>CurrentBalance = 50, Other = (''A'', True)\<rparr>
   \<and> (\<exists>i d. GetTrackerForLock example_Deserialize example_IsAvailable example_TrackerStore = Inr d
          \<and> eligible example_Deserialize example_IsAvailable example_TrackerStore i d
          \<and> CurrentBalance d \<le> 50)"
proof -
  have r: "GetTrackerForLock example_Deserialize example_IsAvailable example_TrackerStore
             = Inr \<lparr>CurrentBalance = 10, Other = (''B'', True)\<rparr>"
    by (simp add: GetTrackerForLock_scan scanned_example_TrackerStore visit_tracker_def
        example_Deserialize_def example_IsAvailable_def GetBalance_def)
  have a: "eligible example_Deserialize example_IsAvailable example_TrackerStore 0
             \<lparr>CurrentBalance = 50, Other = (''A'', True)\<rparr>"
    by (simp add: eligible_def scanned_example_TrackerStore example_Deserialize_def
        example_IsAvailable_def)
  from r have n: "GetTrackerForLock example_Deserialize example_IsAvailable example_TrackerStore
                    \<noteq> Inl NoTrackerFound"
    by simp
  have cap: "prefix_cap example_TrackerStore < length (prefix example_TrackerStore) + 10"
    by (simp add: example_TrackerStore_def bytes_of_def)
  from GetTrackerForLock_lowest_eligible
         [OF cap, of example_Deserialize example_IsAvailable] n
  obtain i d where
    g: "GetTrackerForLock example_Deserialize example_IsAvailable example_TrackerStore = Inr d"
    and e: "eligible example_Deserialize example_IsAvailable example_TrackerStore i d"
    and b: "\<forall>j d1. eligible example_Deserialize example_IsAvailable example_TrackerStore j d1
              \<longrightarrow> CurrentBalance d \<le> CurrentBalance d1"
    by blast
  from b a have "CurrentBalance d \<le> 50" by fastforce
  with cap r n a g e show ?thesis by blast
qed

text \<open>
  C4 as stated fails, also where \<open>start\<close> and \<open>end\<close> are built apart (the prefix slice
  has five bytes and capacity eight). A store whose only tracker is available and has the
  balance
  \<open>999999999999999\<close> gives the no-tracker-found error: the balance is not below the
  amount the scan starts from. So does a store whose only tracker, available and with
  balance 50, is stored under \<open>prefix + "a"\<close> (where \<open>SetTracker\<close> puts a tracker named
  \<open>A\<close>): the key is outside the range that is scanned.
\<close>

theorem GetTrackerForLock_counterexample:
  "prefix_cap example_TrackerStore_D < length (prefix example_TrackerStore_D) + 10
   \<and> prefix_cap example_TrackerStore_A < length (prefix example_TrackerStore_A) + 10
   \<and> bitcoin_TrackerStore.State example_TrackerStore_D = [(bytes_of ''btct_tracker_d'', [4])]
   \<and> example_Deserialize [4] = Some \<lparr>CurrentBalance = 999999999999999, Other = (''D'', True)\<rparr>
   \<and> example_IsAvailable \<lparr>CurrentBalance = 999999999999999, Other = (''D'', True)\<rparr>
   \<and> GetTrackerForLock example_Deserialize example_IsAvailable example_TrackerStore_D
       = Inl NoTrackerFound
   \<and> bitcoin_TrackerStore.State example_TrackerStore_A = [(bytes_of ''btct_a'', [1])]
   \<and> example_Deserialize [1] = Some \<lparr>CurrentBalance = 50, Other = (''A'', True)\<rparr>
   \<and> example_IsAvailable \<lparr>CurrentBalance = 50, Other = (''A'', True)\<rparr>
   \<and> GetTrackerForLock example_Deserialize example_IsAvailable example_TrackerStore_A
       = Inl NoTrackerFound"
proof -
  have "GetTrackerForLock example_Deserialize example_IsAvailable example_TrackerStore_D
          = Inl NoTrackerFound"
    by (simp add: GetTrackerForLock_scan scanned_example_TrackerStore_D visit_tracker_def
        example_Deserialize_def example_IsAvailable_def GetBalance_def)
  moreover
  have "GetTrackerForLock example_Deserialize example_IsAvailable example_TrackerStore_A
          = Inl NoTrackerFound"
    by (simp add: GetTrackerForLock_scan scanned_example_TrackerStore_A)
  ultimately show ?thesis
    by (simp add: example_Deserialize_def example_IsAvailable_def example_TrackerStore_D_def
        example_TrackerStore_A_def bytes_of_def)
qed

end
